theory Spec2Isabelle
  imports Complex_Main
begin

section \<open>Data model\<close>

text \<open>
  A shallow embedding of \<^verbatim>\<open>selectionBox.js\<close> (class \<^verbatim>\<open>SelectionBox\<close>) and
  \<^verbatim>\<open>controls.js\<close> (the \<^verbatim>\<open>Controls\<close> event handlers).

  A coordinate is a finite JavaScript number, written as the real number it denotes.
  Comparisons and exchanges of coordinates are exact. The ellipse test, whose result
  depends on rounding, is computed in double arithmetic (section Double arithmetic).
\<close>

record vec2 =
  px :: real
  py :: real

record vec3 = vec2 +
  pz :: real

text \<open>A THREE.js scene object; its geometry, material and position are output only.\<close>

datatype object3d = Object3D

text \<open>
  A \<^verbatim>\<open>THREE.CatmullRomCurve3\<close> built by \<^verbatim>\<open>makeLine\<close> always has the four control points
  \<^verbatim>\<open>points[0..3]\<close>; an entry of \<^verbatim>\<open>this.curves\<close> is \<^verbatim>\<open>{curveObject, curve, target}\<close>. The
  rendered polyline (\<^verbatim>\<open>curveObject\<close>, resampled from the control points by THREE.js) is
  output only and is left out.
\<close>

record curve_entry =
  points0 :: vec3
  points1 :: vec3
  points2 :: vec3
  points3 :: vec3
  target :: string

text \<open>A resize handle made by \<^verbatim>\<open>makePoint\<close>: a mesh with a name and a position.\<close>

record resize_point =
  point_name :: string
  point_position :: vec3

text \<open>
  The fields of \<^verbatim>\<open>SelectionBox\<close> that the logic reads. \<^verbatim>\<open>box\<close> is the mesh of the region,
  \<^verbatim>\<open>undefined\<close> until \<^verbatim>\<open>makeBox\<close> has run. \<^verbatim>\<open>currentCurve\<close> and \<^verbatim>\<open>currentCurveObject\<close> are
  handed to the scene graph only and are left out.
  \<^verbatim>\<open>curveObject\<close> is the property that \<^verbatim>\<open>Controls.onMouseDown\<close> reads from a box; the
  constructor does not create it and no method of the class assigns it.
\<close>

record SelectionBox =
  layerName :: string
  ll :: vec2
  ur :: vec2
  selectedNeuronType :: "string option"
  selectedSynModel :: "string option"
  selectedShape :: string
  box :: "object3d option"
  resizePoints :: "resize_point list"
  curves :: "curve_entry list"
  selectedPointIDs :: "nat list"
  curveObject :: "object3d option"

section \<open>Double arithmetic\<close>

text \<open>
  The ellipse test divides and compares, so its result depends on how JavaScript rounds.
  A Number is an IEEE 754 binary64 value: a finite double, an infinity or NaN. The sign
  of a zero is not represented; the divisors of the ellipse test are squares and the
  literal 2, whose zero is never negative.
\<close>

datatype jsnum = Num real | PosInf | NegInf | NaN

text \<open>Rounding to the nearest integer, a tie going to the even one.\<close>

definition round_even :: "real \<Rightarrow> int" where
  "round_even q =
     (let f = \<lfloor>q\<rfloor>; r = q - of_int f
      in if r < 1 / 2 then f else if 1 / 2 < r then f + 1 else if even f then f else f + 1)"

text \<open>
  The doubles around \<open>x\<close> are the multiples of \<open>ulp x\<close>: 2 to the power of the binary
  exponent of \<open>x\<close> (not below that of the subnormal numbers, - 1022) less the 52 fraction
  bits.
\<close>

definition binade :: "real \<Rightarrow> int" where
  "binade x = max \<lfloor>log 2 \<bar>x\<bar>\<rfloor> (- 1022)"

definition ulp :: "real \<Rightarrow> real" where
  "ulp x = 2 powr of_int (binade x - 52)"

text \<open>
  The result of an operation whose exact value is \<open>x\<close>: round to nearest, ties to even,
  and an infinity when the rounded value reaches \<open>2 ^ 1024\<close>.
\<close>

definition round64 :: "real \<Rightarrow> jsnum" where
  "round64 x =
     (if x = 0 then Num 0
      else (let r = of_int (round_even (x / ulp x)) * ulp x
            in if 2 ^ 1024 \<le> r then PosInf else if r \<le> - (2 ^ 1024) then NegInf else Num r))"

definition jneg :: "jsnum \<Rightarrow> jsnum" where
  "jneg x = (case x of Num a \<Rightarrow> Num (- a) | PosInf \<Rightarrow> NegInf | NegInf \<Rightarrow> PosInf | NaN \<Rightarrow> NaN)"

text \<open>The operators \<^verbatim>\<open>+\<close>, \<^verbatim>\<open>-\<close>, \<^verbatim>\<open>*\<close> and \<^verbatim>\<open>/\<close> on Numbers.\<close>

fun jadd :: "jsnum \<Rightarrow> jsnum \<Rightarrow> jsnum" where
  "jadd (Num a) (Num c) = round64 (a + c)"
| "jadd NaN y = NaN"
| "jadd x NaN = NaN"
| "jadd PosInf NegInf = NaN"
| "jadd NegInf PosInf = NaN"
| "jadd PosInf y = PosInf"
| "jadd x PosInf = PosInf"
| "jadd NegInf y = NegInf"
| "jadd x NegInf = NegInf"

definition jsub :: "jsnum \<Rightarrow> jsnum \<Rightarrow> jsnum" where
  "jsub x y = jadd x (jneg y)"

fun jmul :: "jsnum \<Rightarrow> jsnum \<Rightarrow> jsnum" where
  "jmul (Num a) (Num c) = round64 (a * c)"
| "jmul NaN y = NaN"
| "jmul x NaN = NaN"
| "jmul (Num a) y = (if a = 0 then NaN else if 0 < a then y else jneg y)"
| "jmul x (Num c) = (if c = 0 then NaN else if 0 < c then x else jneg x)"
| "jmul PosInf y = y"
| "jmul NegInf y = jneg y"

fun jdiv :: "jsnum \<Rightarrow> jsnum \<Rightarrow> jsnum" where
  "jdiv (Num a) (Num c) =
     (if c = 0 then (if a = 0 then NaN else if 0 < a then PosInf else NegInf)
      else round64 (a / c))"
| "jdiv NaN y = NaN"
| "jdiv x NaN = NaN"
| "jdiv (Num a) y = Num 0"
| "jdiv x (Num c) = (if 0 \<le> c then x else jneg x)"
| "jdiv x y = NaN"

text \<open>
  \<^verbatim>\<open>Math.pow(x, 2)\<close>: the rounded product of \<open>x\<close> with itself, which is what the engines'
  \<^verbatim>\<open>pow\<close> returns for the exponent 2.
\<close>

definition jpow2 :: "jsnum \<Rightarrow> jsnum" where
  "jpow2 x = jmul x x"

text \<open>The comparison \<^verbatim>\<open><=\<close> with a finite number: false for NaN.\<close>

fun jle :: "jsnum \<Rightarrow> real \<Rightarrow> bool" where
  "jle (Num a) c = (a \<le> c)"
| "jle NegInf c = True"
| "jle PosInf c = False"
| "jle NaN c = False"

section \<open>Hit testing\<close>

definition withinRectangleBounds :: "SelectionBox \<Rightarrow> vec2 \<Rightarrow> bool" where
  "withinRectangleBounds b pos =
     (px pos \<ge> px (ll b) \<and> px pos \<le> px (ur b) \<and> py pos \<ge> py (ll b) \<and> py pos \<le> py (ur b))"

text \<open>
  \<^verbatim>\<open>withinEllipticalBounds\<close>, every operation rounded as the source computes it:
  \<^verbatim>\<open>Math.pow(pos.x - center.x, 2) / (x_side * x_side)
     + Math.pow(pos.y - center.y, 2) / (y_side * y_side) <= 1\<close>.
\<close>

definition withinEllipticalBounds :: "SelectionBox \<Rightarrow> vec2 \<Rightarrow> bool" where
  "withinEllipticalBounds b pos =
     (let x_side = jdiv (jsub (Num (px (ur b))) (Num (px (ll b)))) (Num 2);
          y_side = jdiv (jsub (Num (py (ur b))) (Num (py (ll b)))) (Num 2);
          center_x = jdiv (jadd (Num (px (ur b))) (Num (px (ll b)))) (Num 2);
          center_y = jdiv (jadd (Num (py (ur b))) (Num (py (ll b)))) (Num 2)
      in jle (jadd (jdiv (jpow2 (jsub (Num (px pos)) center_x)) (jmul x_side x_side))
                   (jdiv (jpow2 (jsub (Num (py pos)) center_y)) (jmul y_side y_side))) 1)"

text \<open>
  \<^verbatim>\<open>withinBounds\<close> has two branches and no final \<^verbatim>\<open>return\<close>: for any other shape tag the
  call yields \<^verbatim>\<open>undefined\<close>, which is \<open>None\<close> here.
\<close>

definition withinBounds :: "SelectionBox \<Rightarrow> vec2 \<Rightarrow> bool option" where
  "withinBounds b pos =
     (if selectedShape b = ''Rectangle'' then Some (withinRectangleBounds b pos)
      else if selectedShape b = ''Ellipse'' then Some (withinEllipticalBounds b pos)
      else None)"

text \<open>The value of \<^verbatim>\<open>withinBounds\<close> as a condition: \<^verbatim>\<open>undefined\<close> is falsy.\<close>

definition truthy :: "bool option \<Rightarrow> bool" where
  "truthy r = (r = Some True)"

section \<open>Collaborators outside the two files\<close>

text \<open>
  Functions and globals that the handlers call but that live in other files
  (\<^verbatim>\<open>toScreenXY\<close>, \<^verbatim>\<open>toObjectCoordinates\<close>, \<^verbatim>\<open>findBounds\<close>, \<^verbatim>\<open>getSelectedShape\<close>,
  \<^verbatim>\<open>getSelectedDropDown\<close>, the renderer's height and the base \<^verbatim>\<open>color\<close>) are parameters.
\<close>

record env =
  toScreenXY :: "vec3 \<Rightarrow> vec2"
  toObjectCoordinates :: "vec2 \<Rightarrow> vec3"
  findBounds :: "vec2 \<Rightarrow> vec2 \<Rightarrow> vec2 \<times> vec2"
  rendererHeight :: real
  color_r :: real
  color_g :: real
  color_b :: real
  getSelectedShape :: string
  getSelectedDropDown :: "string \<Rightarrow> string"

text \<open>
  One entry of the global \<^verbatim>\<open>layer_points\<close>: the flat \<^verbatim>\<open>position\<close> buffer (stride 3) and the
  flat \<^verbatim>\<open>customColor\<close> buffer of \<^verbatim>\<open>layer.points.geometry\<close>. \<^verbatim>\<open>layer_points\<close> itself is an
  association list in the order \<^verbatim>\<open>for ... in\<close> enumerates its keys.
\<close>

record layer =
  positions :: "real list"
  customColor :: "real list"

type_synonym layers = "(string \<times> layer) list"

fun set_layer :: "string \<Rightarrow> layer \<Rightarrow> layers \<Rightarrow> layers" where
  "set_layer k v [] = []"
| "set_layer k v ((k', v') # al) =
     (if k' = k then (k, v) # al else (k', v') # set_layer k v al)"

datatype exn = TypeError

section \<open>SelectionBox: point membership\<close>

text \<open>
  Three consecutive writes into a colour buffer. The buffer is a typed array: a write
  past its end is dropped, as \<open>list_update\<close> does.
\<close>

definition set_rgb :: "nat \<Rightarrow> real \<Rightarrow> real \<Rightarrow> real \<Rightarrow> real list \<Rightarrow> real list" where
  "set_rgb i r g b colors = colors[i := r, i + 1 := g, i + 2 := b]"

text \<open>
  The inner loop of \<^verbatim>\<open>selectPoints\<close> over one layer,
  \<^verbatim>\<open>for (i = 0; i < positions.length; i += 3)\<close>: the list argument is the rest of the buffer
  from index \<open>i\<close> on. A trailing group of fewer than three numbers would be read with
  \<^verbatim>\<open>undefined\<close> coordinates; it selects nothing.
\<close>

fun selectPoints_layer ::
  "env \<Rightarrow> string \<Rightarrow> nat \<Rightarrow> real list \<Rightarrow> SelectionBox \<times> real list \<times> int
     \<Rightarrow> SelectionBox \<times> real list \<times> int" where
  "selectPoints_layer e layer_name i (x # y # z # rest) (b, colors, n) =
     (if truthy (withinBounds b (toScreenXY e \<lparr>px = x, py = y, pz = z\<rparr>))
      then selectPoints_layer e layer_name (i + 3) rest
             (b\<lparr>selectedPointIDs := selectedPointIDs b @ [i],
                layerName := (if layerName b = [] then layer_name else layerName b)\<rparr>,
              set_rgb i 1 0 1 colors, n + 1)
      else selectPoints_layer e layer_name (i + 3) rest (b, colors, n))"
| "selectPoints_layer e layer_name i rest acc = acc"

text \<open>The outer loop of \<^verbatim>\<open>selectPoints\<close>: \<^verbatim>\<open>for (var layer_name in layer_points)\<close>.\<close>

fun selectPoints_layers ::
  "env \<Rightarrow> layers \<Rightarrow> SelectionBox \<times> int \<Rightarrow> SelectionBox \<times> layers \<times> int" where
  "selectPoints_layers e [] (b, n) = (b, [], n)"
| "selectPoints_layers e ((layer_name, l) # ls) (b, n) =
     (case selectPoints_layer e layer_name 0 (positions l) (b, customColor l, n) of
        (b1, colors, n1) \<Rightarrow>
          (case selectPoints_layers e ls (b1, n1) of
             (b2, ls2, n2) \<Rightarrow> (b2, (layer_name, l\<lparr>customColor := colors\<rparr>) # ls2, n2)))"

text \<open>
  \<^verbatim>\<open>selectPoints\<close> acts on the box and on the globals \<^verbatim>\<open>layer_points\<close> and \<^verbatim>\<open>nSelected\<close>
  (the text of \<^verbatim>\<open>#infoselected\<close> is output only).
\<close>

definition selectPoints :: "env \<Rightarrow> SelectionBox \<Rightarrow> layers \<times> int \<Rightarrow> SelectionBox \<times> layers \<times> int" where
  "selectPoints e b g = selectPoints_layers e (fst g) (b, snd g)"

text \<open>The constructor: \<^verbatim>\<open>new SelectionBox(ll, ur, shape)\<close>.\<close>

definition new_SelectionBox ::
  "env \<Rightarrow> vec2 \<Rightarrow> vec2 \<Rightarrow> string \<Rightarrow> layers \<times> int \<Rightarrow> SelectionBox \<times> layers \<times> int" where
  "new_SelectionBox e ll0 ur0 shape g =
     selectPoints e
       \<lparr>layerName = [], ll = ll0, ur = ur0, selectedNeuronType = None, selectedSynModel = None,
        selectedShape = shape, box = None, resizePoints = [], curves = [],
        selectedPointIDs = [], curveObject = None\<rparr> g"

text \<open>The first loop of \<^verbatim>\<open>updateColors\<close> and of \<^verbatim>\<open>removeBox\<close>, over \<^verbatim>\<open>oldPointIDs\<close>.\<close>

fun resetColors :: "env \<Rightarrow> nat list \<Rightarrow> real list \<times> int \<Rightarrow> real list \<times> int" where
  "resetColors e [] acc = acc"
| "resetColors e (colorID # ids) (colors, n) =
     resetColors e ids (set_rgb colorID (color_r e) (color_g e) (color_b e) colors, n - 1)"

text \<open>The second loop of \<^verbatim>\<open>updateColors\<close>, over the layer's position buffer.\<close>

fun rescan ::
  "env \<Rightarrow> SelectionBox \<Rightarrow> nat \<Rightarrow> real list \<Rightarrow> nat list \<times> real list \<times> int
     \<Rightarrow> nat list \<times> real list \<times> int" where
  "rescan e b i (x # y # z # rest) (newPoints, colors, n) =
     (if truthy (withinBounds b (toScreenXY e \<lparr>px = x, py = y, pz = z\<rparr>))
      then rescan e b (i + 3) rest (newPoints @ [i], set_rgb i 1 0 1 colors, n + 1)
      else rescan e b (i + 3) rest (newPoints, colors, n))"
| "rescan e b i rest acc = acc"

text \<open>
  \<^verbatim>\<open>updateColors\<close>. \<^verbatim>\<open>layer_points[this.layerName].points\<close> throws a TypeError when the
  layer name is not a key of \<^verbatim>\<open>layer_points\<close>; nothing has been written by then.
\<close>

definition updateColors ::
  "env \<Rightarrow> SelectionBox \<Rightarrow> layers \<times> int \<Rightarrow> exn option \<times> SelectionBox \<times> layers \<times> int" where
  "updateColors e b g =
     (case map_of (fst g) (layerName b) of
        None \<Rightarrow> (Some TypeError, b, g)
      | Some l \<Rightarrow>
          (case resetColors e (selectedPointIDs b) (customColor l, snd g) of
             (colors1, n1) \<Rightarrow>
               (case rescan e b 0 (positions l) ([], colors1, n1) of
                  (newPoints, colors2, n2) \<Rightarrow>
                    (None, b\<lparr>selectedPointIDs := newPoints\<rparr>,
                     set_layer (layerName b) (l\<lparr>customColor := colors2\<rparr>) (fst g), n2))))"

text \<open>\<^verbatim>\<open>removeBox\<close>: the box itself is unchanged (its mesh leaves the scene).\<close>

definition removeBox :: "env \<Rightarrow> SelectionBox \<Rightarrow> layers \<times> int \<Rightarrow> exn option \<times> layers \<times> int" where
  "removeBox e b g =
     (case map_of (fst g) (layerName b) of
        None \<Rightarrow> (Some TypeError, g)
      | Some l \<Rightarrow>
          (case resetColors e (selectedPointIDs b) (customColor l, snd g) of
             (colors1, n1) \<Rightarrow>
               (None, set_layer (layerName b) (l\<lparr>customColor := colors1\<rparr>) (fst g), n1)))"

section \<open>SelectionBox: handles and connector curves\<close>

text \<open>
  \<^verbatim>\<open>makeBox\<close> builds the mesh of the region and stores it in \<^verbatim>\<open>this.box\<close>. \<^verbatim>\<open>updateBox\<close>
  assigns a new geometry to \<^verbatim>\<open>this.box\<close>; while \<^verbatim>\<open>this.box\<close> is \<^verbatim>\<open>undefined\<close> the assignment
  \<^verbatim>\<open>this.box.geometry = geometry\<close> throws a TypeError.
\<close>

definition makeBox :: "env \<Rightarrow> SelectionBox \<Rightarrow> SelectionBox" where
  "makeBox e b = b\<lparr>box := Some Object3D\<rparr>"

definition updateBox :: "env \<Rightarrow> SelectionBox \<Rightarrow> exn + SelectionBox" where
  "updateBox e b = (case box b of None \<Rightarrow> Inl TypeError | Some mesh \<Rightarrow> Inr b)"

definition getSelectionBounds :: "env \<Rightarrow> SelectionBox \<Rightarrow> vec2 \<times> vec2" where
  "getSelectionBounds e b =
     (let roomLL = toObjectCoordinates e (ll b); roomUR = toObjectCoordinates e (ur b)
      in (\<lparr>px = px roomLL, py = - py roomLL\<rparr>, \<lparr>px = px roomUR, py = - py roomUR\<rparr>))"

definition makeLine :: "env \<Rightarrow> SelectionBox \<Rightarrow> SelectionBox" where
  "makeLine e b =
     (case getSelectionBounds e b of
        (bll, bur) \<Rightarrow>
          (let p = \<lparr>px = px bur, py = (py bll + py bur) / 2, pz = 0\<rparr>
           in b\<lparr>curves := curves b @
                  [\<lparr>points0 = p, points1 = p, points2 = p, points3 = p, target = []\<rparr>]\<rparr>))"

text \<open>
  \<^verbatim>\<open>setLineTarget\<close> writes \<^verbatim>\<open>this.curves[this.curves.length - 1].target\<close>; with no curve
  the element is \<^verbatim>\<open>undefined\<close> and the assignment throws.
\<close>

definition setLineTarget :: "string \<Rightarrow> SelectionBox \<Rightarrow> exn + SelectionBox" where
  "setLineTarget dev b =
     (if curves b = [] then Inl TypeError
      else Inr (b\<lparr>curves := butlast (curves b) @ [(last (curves b))\<lparr>target := dev\<rparr>]\<rparr>))"

definition updateLineStart :: "vec3 \<Rightarrow> SelectionBox \<Rightarrow> SelectionBox" where
  "updateLineStart newPos b =
     b\<lparr>curves := map (\<lambda>c.
          c\<lparr>points0 := (points0 c)\<lparr>px := px newPos, py := py newPos\<rparr>,
            points1 := (points1 c)\<lparr>px := px newPos + 0.05, py := py newPos\<rparr>\<rparr>) (curves b)\<rparr>"

definition updateLineEnd :: "vec2 \<Rightarrow> string \<Rightarrow> SelectionBox \<Rightarrow> SelectionBox" where
  "updateLineEnd newPos tgt b =
     b\<lparr>curves := map (\<lambda>c.
          if target c = tgt then
            c\<lparr>points1 := (points1 c)\<lparr>px := px (points0 c) + 0.05\<rparr>,
              points2 := (points2 c)\<lparr>px := px newPos - 0.05, py := py newPos\<rparr>,
              points3 := (points3 c)\<lparr>px := px newPos, py := py newPos\<rparr>\<rparr>
          else c) (curves b)\<rparr>"

definition removeLine :: "SelectionBox \<Rightarrow> SelectionBox" where
  "removeLine b = b\<lparr>curves := butlast (curves b)\<rparr>"

text \<open>The loop of \<^verbatim>\<open>removeLines\<close> for a non-empty target: splice the first match, then break.\<close>

fun remove_first_target :: "string \<Rightarrow> curve_entry list \<Rightarrow> curve_entry list" where
  "remove_first_target tgt [] = []"
| "remove_first_target tgt (c # cs) =
     (if tgt = target c then cs else c # remove_first_target tgt cs)"

definition removeLines :: "string \<Rightarrow> SelectionBox \<Rightarrow> SelectionBox" where
  "removeLines tgt b =
     (if tgt = [] then b\<lparr>curves := []\<rparr>
      else b\<lparr>curves := remove_first_target tgt (curves b)\<rparr>)"

definition makePoint :: "vec3 \<Rightarrow> string \<Rightarrow> resize_point" where
  "makePoint pos name = \<lparr>point_name = name, point_position = pos\<rparr>"

definition makeSelectionPoints :: "env \<Rightarrow> SelectionBox \<Rightarrow> SelectionBox" where
  "makeSelectionPoints e b =
     (case getSelectionBounds e b of
        (bll, bur) \<Rightarrow>
          b\<lparr>resizePoints := resizePoints b @
              [makePoint \<lparr>px = px bll, py = py bll, pz = 0.0001\<rparr> ''lowerLeft'',
               makePoint \<lparr>px = (px bll + px bur) / 2, py = py bll, pz = 0.0001\<rparr> ''lowerMiddle'',
               makePoint \<lparr>px = px bur, py = py bll, pz = 0.0001\<rparr> ''lowerRight'',
               makePoint \<lparr>px = px bur, py = (py bll + py bur) / 2, pz = 0.0001\<rparr> ''middleRight'',
               makePoint \<lparr>px = px bur, py = py bur, pz = 0.0001\<rparr> ''upperRight'',
               makePoint \<lparr>px = (px bll + px bur) / 2, py = py bur, pz = 0.0001\<rparr> ''upperMiddle'',
               makePoint \<lparr>px = px bll, py = py bur, pz = 0.0001\<rparr> ''upperLeft'',
               makePoint \<lparr>px = px bll, py = (py bll + py bur) / 2, pz = 0.0001\<rparr> ''middleLeft'']\<rparr>)"

definition removePoints :: "SelectionBox \<Rightarrow> SelectionBox" where
  "removePoints b = b\<lparr>resizePoints := []\<rparr>"

section \<open>Controls: state and events\<close>

text \<open>A draggable device marker as the ray caster reports it: name, position, bounding radius.\<close>

record device =
  device_name :: string
  device_position :: vec3
  device_radius :: real

text \<open>
  The variables of the \<^verbatim>\<open>Controls\<close> closure and the globals it shares with the rest of the
  application. SelectionBox objects live in \<open>heap\<close> and are referred to by their index
  there, so that \<^verbatim>\<open>boxInFocus\<close>, \<^verbatim>\<open>selectionBoxArray\<close> and the lists of \<^verbatim>\<open>deviceBoxMap\<close> share
  one object as they do in the source; \<^verbatim>\<open>indexOf\<close> compares these references.
\<close>

record state =
  mouseDown :: bool
  shiftDown :: bool
  make_selection_box :: bool
  make_connection :: bool
  object_selected :: "device option"
  selectionBoxArray :: "nat list"
  boxInFocus :: "nat option"
  resizeSideInFocus :: "string option"
  mouseDownCoords :: vec2
  mRelPos :: vec2
  layerSelected :: string
  layer_points :: layers
  nSelected :: int
  deviceBoxMap :: "(string \<times> nat list) list"
  heap :: "SelectionBox list"

text \<open>
  A mouse event together with what the THREE.js ray caster answers for it:
  \<open>pointIntersects\<close> are the names of the handles of the focused box that the ray hits and
  \<open>intersects\<close> the draggable objects it hits, nearest first; \<open>planeHit\<close> says whether
  \<^verbatim>\<open>raycaster.ray.intersectPlane\<close> finds a point.
\<close>

record mouse_event =
  target_is_canvas :: bool
  clientX :: real
  clientY :: real
  shiftKey :: bool
  pointIntersects :: "string list"
  intersects :: "device list"
  planeHit :: bool

definition update_box :: "nat \<Rightarrow> (SelectionBox \<Rightarrow> SelectionBox) \<Rightarrow> state \<Rightarrow> state" where
  "update_box r f s = s\<lparr>heap := (heap s)[r := f (heap s ! r)]\<rparr>"

definition resetButtons :: "state \<Rightarrow> state" where
  "resetButtons s =
     s\<lparr>mouseDown := False, shiftDown := False, make_selection_box := False,
       make_connection := False, mouseDownCoords := \<lparr>px = 0, py = 0\<rparr>,
       mRelPos := \<lparr>px = 0, py = 0\<rparr>, layerSelected := []\<rparr>"

section \<open>Controls: onMouseDown\<close>

text \<open>
  The loop \<^verbatim>\<open>for (var i in selectionBoxArray)\<close> of \<^verbatim>\<open>onMouseDown\<close> and the assignment after
  it. The first box containing the point gets the focus; the connector is made when the
  box's \<^verbatim>\<open>curveObject\<close> is \<^verbatim>\<open>undefined\<close>.
\<close>

fun focus_scan :: "env \<Rightarrow> vec2 \<Rightarrow> nat list \<Rightarrow> state \<Rightarrow> state" where
  "focus_scan e mouseDownCorrected [] s = s\<lparr>make_selection_box := True\<rparr>"
| "focus_scan e mouseDownCorrected (r # rs) s =
     (if truthy (withinBounds (heap s ! r) mouseDownCorrected) then
        (let s1 = s\<lparr>boxInFocus := Some r\<rparr>;
             s2 = (if curveObject (heap s1 ! r) = None
                   then update_box r (makeLine e) (s1\<lparr>make_connection := True\<rparr>)
                   else s1)
         in update_box r (makeSelectionPoints e) s2)
      else focus_scan e mouseDownCorrected rs s)"

text \<open>The part of \<^verbatim>\<open>onMouseDown\<close> after the test of the handles.\<close>

definition onMouseDown_select :: "env \<Rightarrow> state \<Rightarrow> mouse_event \<Rightarrow> state" where
  "onMouseDown_select e s ev =
     (if shiftKey ev then
        (case intersects ev of
           [] \<Rightarrow> s\<lparr>shiftDown := True\<rparr>
         | d # ds \<Rightarrow> s\<lparr>shiftDown := True, object_selected := Some d\<rparr>)
      else
        focus_scan e \<lparr>px = px (mouseDownCoords s), py = rendererHeight e - py (mouseDownCoords s)\<rparr>
          (selectionBoxArray s) s)"

definition onMouseDown :: "env \<Rightarrow> state \<Rightarrow> mouse_event \<Rightarrow> state" where
  "onMouseDown e s ev =
     (if target_is_canvas ev then
        (let s1 = s\<lparr>mouseDown := True, mouseDownCoords := \<lparr>px = clientX ev, py = clientY ev\<rparr>\<rparr>
         in case boxInFocus s1 of
              None \<Rightarrow> onMouseDown_select e s1 ev
            | Some r \<Rightarrow>
                (case pointIntersects ev of
                   name # names \<Rightarrow> s1\<lparr>resizeSideInFocus := Some name\<rparr>
                 | [] \<Rightarrow> onMouseDown_select e ((update_box r removePoints s1)\<lparr>boxInFocus := None\<rparr>) ev))
      else s)"

section \<open>Controls: onMouseMove\<close>

text \<open>The \<^verbatim>\<open>switch (resizeSideInFocus)\<close> of \<^verbatim>\<open>onMouseMove\<close>; \<open>cy\<close> is the flipped \<^verbatim>\<open>clientY\<close>.\<close>

definition resize_side :: "string \<Rightarrow> real \<Rightarrow> real \<Rightarrow> SelectionBox \<Rightarrow> SelectionBox option" where
  "resize_side side cx cy b =
     (if side = ''lowerLeft'' then Some (b\<lparr>ll := (ll b)\<lparr>px := cx, py := cy\<rparr>\<rparr>)
      else if side = ''lowerMiddle'' then Some (b\<lparr>ll := (ll b)\<lparr>py := cy\<rparr>\<rparr>)
      else if side = ''lowerRight'' then Some (b\<lparr>ur := (ur b)\<lparr>px := cx\<rparr>, ll := (ll b)\<lparr>py := cy\<rparr>\<rparr>)
      else if side = ''middleRight'' then Some (b\<lparr>ur := (ur b)\<lparr>px := cx\<rparr>\<rparr>)
      else if side = ''upperRight'' then Some (b\<lparr>ur := (ur b)\<lparr>px := cx, py := cy\<rparr>\<rparr>)
      else if side = ''upperMiddle'' then Some (b\<lparr>ur := (ur b)\<lparr>py := cy\<rparr>\<rparr>)
      else if side = ''upperLeft'' then Some (b\<lparr>ll := (ll b)\<lparr>px := cx\<rparr>, ur := (ur b)\<lparr>py := cy\<rparr>\<rparr>)
      else if side = ''middleLeft'' then Some (b\<lparr>ll := (ll b)\<lparr>px := cx\<rparr>\<rparr>)
      else None)"

definition is_resize_side :: "string \<Rightarrow> bool" where
  "is_resize_side side =
     (side = ''lowerLeft'' \<or> side = ''lowerMiddle'' \<or> side = ''lowerRight'' \<or> side = ''middleRight''
      \<or> side = ''upperRight'' \<or> side = ''upperMiddle'' \<or> side = ''upperLeft'' \<or> side = ''middleLeft'')"

text \<open>
  \<^verbatim>\<open>onMouseMove\<close> (the marquee's style is output only). Reading a property of
  \<^verbatim>\<open>boxInFocus\<close> while it is \<^verbatim>\<open>undefined\<close> throws a TypeError; in the resize branch the
  corner is written first and \<^verbatim>\<open>updateBox\<close> is called after it.
\<close>

definition onMouseMove :: "env \<Rightarrow> state \<Rightarrow> mouse_event \<Rightarrow> exn option \<times> state" where
  "onMouseMove e s ev =
     (if make_selection_box s then
        (None, s\<lparr>mRelPos := \<lparr>px = clientX ev - px (mouseDownCoords s),
                              py = clientY ev - py (mouseDownCoords s)\<rparr>\<rparr>)
      else
        (case resizeSideInFocus s of
           Some side \<Rightarrow>
             (if is_resize_side side then
                (case boxInFocus s of
                   None \<Rightarrow> (Some TypeError, s)
                 | Some r \<Rightarrow>
                     (let s1 = update_box r (\<lambda>b.
                                 case resize_side side (clientX ev) (rendererHeight e - clientY ev) b of
                                   Some b' \<Rightarrow> b' | None \<Rightarrow> b) s
                      in case updateBox e (heap s1 ! r) of
                           Inl x \<Rightarrow> (Some x, s1)
                         | Inr b \<Rightarrow> (None, s1)))
              else (None, s))
         | None \<Rightarrow>
             (if make_connection s then
                (case boxInFocus s of
                   None \<Rightarrow> (Some TypeError, s)
                 | Some r \<Rightarrow>
                     (let relScreenPos = toObjectCoordinates e \<lparr>px = clientX ev, py = clientY ev\<rparr>
                      in (None, update_box r
                            (updateLineEnd \<lparr>px = px relScreenPos, py = py relScreenPos\<rparr> []) s)))
              else if shiftDown s then
                (case object_selected s of
                   None \<Rightarrow> (None, s)
                 | Some d \<Rightarrow>
                     (if planeHit ev then
                        (let relScreenPos = toObjectCoordinates e \<lparr>px = clientX ev, py = clientY ev\<rparr>;
                             newEnd = \<lparr>px = px relScreenPos - device_radius d, py = py relScreenPos\<rparr>;
                             boxes = (case map_of (deviceBoxMap s) (device_name d) of
                                        None \<Rightarrow> [] | Some bs \<Rightarrow> bs)
                         in (None,
                             (fold (\<lambda>r. update_box r (updateLineEnd newEnd (device_name d))) boxes s)
                               \<lparr>object_selected := Some (d\<lparr>device_position := relScreenPos\<rparr>)\<rparr>))
                      else (None, s)))
              else (None, s))))"

section \<open>Controls: onMouseUp\<close>

text \<open>
  The first branch of \<^verbatim>\<open>onMouseUp\<close> (\<^verbatim>\<open>make_selection_box\<close>): the new box is allocated,
  takes the focus and is pushed on \<^verbatim>\<open>selectionBoxArray\<close>; then \<^verbatim>\<open>layerSelected\<close> is tested.
  \<^verbatim>\<open>makeNetwork\<close>, the POST of \<^verbatim>\<open>getSelectionInfo()\<close> and the render request are output
  only.
\<close>

definition onMouseUp_select :: "env \<Rightarrow> state \<Rightarrow> state" where
  "onMouseUp_select e s =
     (let mouseDownCorrected =
            \<lparr>px = px (mouseDownCoords s), py = rendererHeight e - py (mouseDownCoords s)\<rparr>;
          mouseUpCoords =
            \<lparr>px = px (mRelPos s) + px mouseDownCorrected,
             py = - py (mRelPos s) + py mouseDownCorrected\<rparr>;
          bounds = findBounds e mouseUpCoords mouseDownCorrected
      in case new_SelectionBox e (fst bounds) (snd bounds) (getSelectedShape e)
                (layer_points s, nSelected s) of
           (b, lp, n) \<Rightarrow>
             (let r = length (heap s);
                  s1 = s\<lparr>heap := heap s @ [b], layer_points := lp, nSelected := n,
                         boxInFocus := Some r, layerSelected := layerName b,
                         selectionBoxArray := selectionBoxArray s @ [r]\<rparr>
              in if layerSelected s1 = [] then resetButtons s1
                 else resetButtons
                        (update_box r (\<lambda>b.
                           (makeSelectionPoints e (makeBox e b))
                             \<lparr>selectedNeuronType := Some (getSelectedDropDown e ''neuronType''),
                              selectedSynModel := Some (getSelectedDropDown e ''synapseModel'')\<rparr>) s1)))"

text \<open>The exchange of coordinates in the second branch of \<^verbatim>\<open>onMouseUp\<close>.\<close>

definition flip_x :: "SelectionBox \<Rightarrow> SelectionBox" where
  "flip_x b =
     (if px (ll b) > px (ur b)
      then b\<lparr>ur := (ur b)\<lparr>px := px (ll b)\<rparr>, ll := (ll b)\<lparr>px := px (ur b)\<rparr>\<rparr>
      else b)"

definition flip_y :: "SelectionBox \<Rightarrow> SelectionBox" where
  "flip_y b =
     (if py (ll b) > py (ur b)
      then b\<lparr>ur := (ur b)\<lparr>py := py (ll b)\<rparr>, ll := (ll b)\<lparr>py := py (ur b)\<rparr>\<rparr>
      else b)"

text \<open>The second branch of \<^verbatim>\<open>onMouseUp\<close> (\<^verbatim>\<open>resizeSideInFocus !== undefined\<close>).\<close>

definition onMouseUp_resize :: "env \<Rightarrow> state \<Rightarrow> exn option \<times> state" where
  "onMouseUp_resize e s =
     (let s1 = s\<lparr>resizeSideInFocus := None\<rparr>
      in case boxInFocus s1 of
           None \<Rightarrow> (Some TypeError, s1)
         | Some r \<Rightarrow>
             (let s2 = update_box r (\<lambda>b. makeSelectionPoints e (removePoints (flip_y (flip_x b)))) s1
              in case updateColors e (heap s2 ! r) (layer_points s2, nSelected s2) of
                   (Some x, b, lp, n) \<Rightarrow> (Some x, s2)
                 | (None, b, lp, n) \<Rightarrow>
                     (let s3 = s2\<lparr>heap := (heap s2)[r := b], layer_points := lp, nSelected := n\<rparr>;
                          newPos = toObjectCoordinates e
                                     \<lparr>px = px (ur b),
                                      py = rendererHeight e - (py (ll b) + py (ur b)) / 2\<rparr>
                      in (None, resetButtons (update_box r (updateLineStart newPos) s3)))))"

text \<open>The third branch of \<^verbatim>\<open>onMouseUp\<close> (\<^verbatim>\<open>make_connection\<close>).\<close>

fun set_device_boxes :: "string \<Rightarrow> nat list \<Rightarrow> (string \<times> nat list) list \<Rightarrow> (string \<times> nat list) list" where
  "set_device_boxes k v [] = []"
| "set_device_boxes k v ((k', v') # al) =
     (if k' = k then (k, v) # al else (k', v') # set_device_boxes k v al)"

definition onMouseUp_connect :: "env \<Rightarrow> state \<Rightarrow> mouse_event \<Rightarrow> exn option \<times> state" where
  "onMouseUp_connect e s ev =
     (case intersects ev of
        intersect_target # others \<Rightarrow>
          (case boxInFocus s of
             None \<Rightarrow> (Some TypeError, s)
           | Some r \<Rightarrow>
               (case setLineTarget (device_name intersect_target) (heap s ! r) of
                  Inl x \<Rightarrow> (Some x, s)
                | Inr b1 \<Rightarrow>
                    (let newPos = \<lparr>px = px (device_position intersect_target) - device_radius intersect_target,
                                   py = py (device_position intersect_target)\<rparr>;
                         s1 = s\<lparr>heap := (heap s)
                                 [r := updateLineEnd newPos (device_name intersect_target) b1]\<rparr>
                     in case map_of (deviceBoxMap s1) (device_name intersect_target) of
                          None \<Rightarrow> (Some TypeError, s1)
                        | Some boxes \<Rightarrow>
                            (None, resetButtons
                               (s1\<lparr>deviceBoxMap :=
                                     set_device_boxes (device_name intersect_target) (boxes @ [r])
                                       (deviceBoxMap s1)\<rparr>)))))
      | [] \<Rightarrow>
          (case boxInFocus s of
             None \<Rightarrow> (Some TypeError, s)
           | Some r \<Rightarrow> (None, resetButtons (update_box r removeLine s))))"

definition onMouseUp :: "env \<Rightarrow> state \<Rightarrow> mouse_event \<Rightarrow> exn option \<times> state" where
  "onMouseUp e s ev =
     (if make_selection_box s then (None, onMouseUp_select e s)
      else if resizeSideInFocus s \<noteq> None then onMouseUp_resize e s
      else if make_connection s then onMouseUp_connect e s ev
      else if shiftDown s then (None, resetButtons (s\<lparr>object_selected := None\<rparr>))
      else (None, resetButtons s))"

section \<open>Controls: onKeyUp\<close>

text \<open>
  \<^verbatim>\<open>onKeyUp\<close>. \<^verbatim>\<open>indexOf\<close> followed by \<^verbatim>\<open>splice(index, 1)\<close> removes the first occurrence
  (\<open>remove1\<close>); the loop \<^verbatim>\<open>for (device in deviceBoxMap)\<close> does so in every list.
\<close>

definition onKeyUp :: "env \<Rightarrow> state \<Rightarrow> nat \<Rightarrow> exn option \<times> state" where
  "onKeyUp e s keyCode =
     (case boxInFocus s of
        None \<Rightarrow> (None, s)
      | Some r \<Rightarrow>
          (if keyCode = 46 then
             (let s1 = update_box r removePoints s
              in case removeBox e (heap s1 ! r) (layer_points s1, nSelected s1) of
                   (Some x, lp, n) \<Rightarrow> (Some x, s1)
                 | (None, lp, n) \<Rightarrow>
                     (let s2 = update_box r (removeLines []) (s1\<lparr>layer_points := lp, nSelected := n\<rparr>)
                      in (None,
                          s2\<lparr>selectionBoxArray := remove1 r (selectionBoxArray s2),
                             deviceBoxMap := map (\<lambda>(dev, boxes). (dev, remove1 r boxes)) (deviceBoxMap s2),
                             boxInFocus := None\<rparr>)))
           else (None, s)))"

section \<open>The specification's membership set\<close>

text \<open>
  The invariant of the data model, in the specification's words: the points of a layer's
  point field whose projected screen position satisfies \<^verbatim>\<open>withinBounds\<close>. A point is named
  by the index of its first coordinate in the position buffer.
\<close>

definition points_within :: "env \<Rightarrow> SelectionBox \<Rightarrow> real list \<Rightarrow> nat set" where
  "points_within e b ps =
     {i. i mod 3 = 0 \<and> i + 2 < length ps \<and>
         truthy (withinBounds b (toScreenXY e \<lparr>px = ps ! i, py = ps ! (i + 1), pz = ps ! (i + 2)\<rparr>))}"

text \<open>The indices that one pass over a position buffer collects, without the colouring.\<close>

fun scan_ids :: "env \<Rightarrow> SelectionBox \<Rightarrow> nat \<Rightarrow> real list \<Rightarrow> nat list" where
  "scan_ids e b i (x # y # z # rest) =
     (if truthy (withinBounds b (toScreenXY e \<lparr>px = x, py = y, pz = z\<rparr>))
      then i # scan_ids e b (i + 3) rest
      else scan_ids e b (i + 3) rest)"
| "scan_ids e b i rest = []"

section \<open>A concrete scene\<close>

text \<open>
  Modelled from the spec: \<^verbatim>\<open>findBounds\<close> is not among the sources. The specification says
  that committing the marquee normalizes the two corners from the signed drag.
\<close>

definition findBounds_spec :: "vec2 \<Rightarrow> vec2 \<Rightarrow> vec2 \<times> vec2" where
  "findBounds_spec p q =
     (\<lparr>px = min (px p) (px q), py = min (py p) (py q)\<rparr>,
      \<lparr>px = max (px p) (px q), py = max (py p) (py q)\<rparr>)"

text \<open>
  A viewport 600 pixels high whose projection keeps the x and y of a point, with the
  rectangle tool chosen.
\<close>

definition scene_env :: env where
  "scene_env =
     \<lparr>toScreenXY = (\<lambda>p. \<lparr>px = px p, py = py p\<rparr>),
      toObjectCoordinates = (\<lambda>p. \<lparr>px = px p, py = py p, pz = 0\<rparr>),
      findBounds = findBounds_spec,
      rendererHeight = 600,
      color_r = 0, color_g = 0, color_b = 1,
      getSelectedShape = ''Rectangle'',
      getSelectedDropDown = (\<lambda>d. ''default'')\<rparr>"

text \<open>
  Two layers (one point at (150, 150); two points at (500, 500) and (250, 200)), one
  device \<^verbatim>\<open>voltmeter_1\<close> with no connection yet, no selection box.
\<close>

definition scene_start :: state where
  "scene_start =
     \<lparr>mouseDown = False, shiftDown = False, make_selection_box = False,
      make_connection = False, object_selected = None, selectionBoxArray = [],
      boxInFocus = None, resizeSideInFocus = None,
      mouseDownCoords = \<lparr>px = 0, py = 0\<rparr>, mRelPos = \<lparr>px = 0, py = 0\<rparr>,
      layerSelected = [],
      layer_points =
        [(''layerA'', \<lparr>positions = [150, 150, 0], customColor = [0, 0, 1]\<rparr>),
         (''layerB'', \<lparr>positions = [500, 500, 0, 250, 200, 0], customColor = [0, 0, 1, 0, 0, 1]\<rparr>)],
      nSelected = 0,
      deviceBoxMap = [(''voltmeter_1'', [])],
      heap = []\<rparr>"

definition mouse_at :: "real \<Rightarrow> real \<Rightarrow> mouse_event" where
  "mouse_at cx cy =
     \<lparr>target_is_canvas = True, clientX = cx, clientY = cy, shiftKey = False,
      pointIntersects = [], intersects = [], planeHit = False\<rparr>"

definition voltmeter :: device where
  "voltmeter = \<lparr>device_name = ''voltmeter_1'', device_position = \<lparr>px = 5, py = 0, pz = 0\<rparr>,
                device_radius = 0.2\<rparr>"

text \<open>A marquee: press at \<open>(x0, y0)\<close>, drag to \<open>(x1, y1)\<close>, release.\<close>

definition marquee :: "env \<Rightarrow> state \<Rightarrow> real \<Rightarrow> real \<Rightarrow> real \<Rightarrow> real \<Rightarrow> exn option \<times> state" where
  "marquee e s x0 y0 x1 y1 =
     onMouseUp e (snd (onMouseMove e (onMouseDown e s (mouse_at x0 y0)) (mouse_at x1 y1)))
       (mouse_at x1 y1)"

text \<open>A press at \<open>(x, y)\<close> and a release, with no move between, over the device \<open>d\<close>.\<close>

definition click_to_device :: "env \<Rightarrow> state \<Rightarrow> real \<Rightarrow> real \<Rightarrow> device \<Rightarrow> exn option \<times> state" where
  "click_to_device e s cx cy d =
     onMouseUp e (onMouseDown e s (mouse_at cx cy)) ((mouse_at cx cy)\<lparr>intersects := [d]\<rparr>)"

text \<open>The scene after a marquee from (100, 500) to (200, 420) around the point of layerA.\<close>

definition scene_drawn :: state where
  "scene_drawn = snd (marquee scene_env scene_start 100 500 200 420)"

text \<open>The scene after a marquee over an empty part of the canvas.\<close>

definition scene_empty_marquee :: state where
  "scene_empty_marquee = snd (marquee scene_env scene_start 400 100 450 50)"

text \<open>The drawn box, connected to the voltmeter once and twice.\<close>

definition scene_connected :: state where
  "scene_connected = snd (click_to_device scene_env scene_drawn 150 450 voltmeter)"

definition scene_connected_twice :: state where
  "scene_connected_twice = snd (click_to_device scene_env scene_connected 150 450 voltmeter)"

text \<open>The drawn box, its lower left handle pressed and dragged beyond its upper right corner.\<close>

definition scene_dragged :: state where
  "scene_dragged =
     snd (onMouseMove scene_env
            (onMouseDown scene_env scene_drawn ((mouse_at 100 500)\<lparr>pointIntersects := [''lowerLeft'']\<rparr>))
            (mouse_at 400 300))"

text \<open>The box that the first marquee creates, with its eight handles.\<close>

definition box_drawn :: SelectionBox where
  "box_drawn =
     \<lparr>layerName = ''layerA'', ll = \<lparr>px = 100, py = 100\<rparr>, ur = \<lparr>px = 200, py = 180\<rparr>,
      selectedNeuronType = Some ''default'', selectedSynModel = Some ''default'',
      selectedShape = ''Rectangle'', box = Some Object3D,
      resizePoints =
        [\<lparr>point_name = ''lowerLeft'', point_position = \<lparr>px = 100, py = - 100, pz = 1 / 10000\<rparr>\<rparr>,
         \<lparr>point_name = ''lowerMiddle'', point_position = \<lparr>px = 150, py = - 100, pz = 1 / 10000\<rparr>\<rparr>,
         \<lparr>point_name = ''lowerRight'', point_position = \<lparr>px = 200, py = - 100, pz = 1 / 10000\<rparr>\<rparr>,
         \<lparr>point_name = ''middleRight'', point_position = \<lparr>px = 200, py = - 140, pz = 1 / 10000\<rparr>\<rparr>,
         \<lparr>point_name = ''upperRight'', point_position = \<lparr>px = 200, py = - 180, pz = 1 / 10000\<rparr>\<rparr>,
         \<lparr>point_name = ''upperMiddle'', point_position = \<lparr>px = 150, py = - 180, pz = 1 / 10000\<rparr>\<rparr>,
         \<lparr>point_name = ''upperLeft'', point_position = \<lparr>px = 100, py = - 180, pz = 1 / 10000\<rparr>\<rparr>,
         \<lparr>point_name = ''middleLeft'', point_position = \<lparr>px = 100, py = - 140, pz = 1 / 10000\<rparr>\<rparr>],
      curves = [], selectedPointIDs = [0], curveObject = None\<rparr>"

text \<open>An elliptical box with centre (200, 150) and half extents 100 and 50.\<close>

definition box_ellipse :: SelectionBox where
  "box_ellipse =
     \<lparr>layerName = ''layerA'', ll = \<lparr>px = 100, py = 100\<rparr>, ur = \<lparr>px = 300, py = 200\<rparr>,
      selectedNeuronType = None, selectedSynModel = None, selectedShape = ''Ellipse'',
      box = Some Object3D, resizePoints = [], curves = [], selectedPointIDs = [],
      curveObject = None\<rparr>"

text \<open>The connector of the drawn box once it is attached to the voltmeter.\<close>

definition curve_attached :: curve_entry where
  "curve_attached =
     \<lparr>points0 = \<lparr>px = 200, py = - 140, pz = 0\<rparr>,
      points1 = \<lparr>px = 200 + 0.05, py = - 140, pz = 0\<rparr>,
      points2 = \<lparr>px = 5 - 0.2 - 0.05, py = 0, pz = 0\<rparr>,
      points3 = \<lparr>px = 5 - 0.2, py = 0, pz = 0\<rparr>,
      target = ''voltmeter_1''\<rparr>"

text \<open>The drawn box pressed in its interior: the connector gesture has begun.\<close>

definition scene_connecting :: state where
  "scene_connecting = onMouseDown scene_env scene_drawn (mouse_at 150 450)"

text \<open>The scene after a marquee from (100, 500) to (300, 350), which spans both layers.\<close>

definition scene_wide_marquee :: state where
  "scene_wide_marquee = snd (marquee scene_env scene_start 100 500 300 350)"


section \<open>Hit testing: the two shapes\<close>

text \<open>
  C6. A rectangle whose corners are in order contains its four corners and its centre,
  and \<^verbatim>\<open>withinBounds\<close> is false at every point with a coordinate strictly outside the
  closed intervals: the bounds are inclusive on all four sides.
\<close>

theorem withinBounds_rectangle:
  assumes "selectedShape b = ''Rectangle''"
      and "px (ll b) \<le> px (ur b)" and "py (ll b) \<le> py (ur b)"
  shows "withinBounds b \<lparr>px = px (ll b), py = py (ll b)\<rparr> = Some True
       \<and> withinBounds b \<lparr>px = px (ur b), py = py (ll b)\<rparr> = Some True
       \<and> withinBounds b \<lparr>px = px (ur b), py = py (ur b)\<rparr> = Some True
       \<and> withinBounds b \<lparr>px = px (ll b), py = py (ur b)\<rparr> = Some True
       \<and> withinBounds b \<lparr>px = (px (ll b) + px (ur b)) / 2, py = (py (ll b) + py (ur b)) / 2\<rparr> = Some True
       \<and> (\<forall>p. px p < px (ll b) \<or> px (ur b) < px p \<or> py p < py (ll b) \<or> py (ur b) < py p
              \<longrightarrow> withinBounds b p = Some False)"
  using assms by (auto simp: withinBounds_def withinRectangleBounds_def)

theorem withinBounds_rectangle_witness:
  "selectedShape box_drawn = ''Rectangle''
   \<and> px (ll box_drawn) \<le> px (ur box_drawn) \<and> py (ll box_drawn) \<le> py (ur box_drawn)
   \<and> withinBounds box_drawn \<lparr>px = 100, py = 100\<rparr> = Some True
   \<and> withinBounds box_drawn \<lparr>px = 200, py = 100\<rparr> = Some True
   \<and> withinBounds box_drawn \<lparr>px = 200, py = 180\<rparr> = Some True
   \<and> withinBounds box_drawn \<lparr>px = 100, py = 180\<rparr> = Some True
   \<and> withinBounds box_drawn \<lparr>px = 150, py = 140\<rparr> = Some True
   \<and> withinBounds box_drawn \<lparr>px = 201, py = 140\<rparr> = Some False
   \<and> withinBounds box_drawn \<lparr>px = 150, py = 99\<rparr> = Some False"
proof -
  have h: "selectedShape box_drawn = ''Rectangle''"
      "px (ll box_drawn) \<le> px (ur box_drawn)" "py (ll box_drawn) \<le> py (ur box_drawn)"
    by (simp_all add: box_drawn_def)
  have far: "px (ur box_drawn) < px \<lparr>px = 201, py = 140\<rparr>" "py \<lparr>px = 150, py = 99\<rparr> < py (ll box_drawn)"
    by (simp_all add: box_drawn_def)
  from withinBounds_rectangle[OF h] far h show ?thesis
    by (simp add: box_drawn_def)
qed

text \<open>
  Facts about rounding: integers are kept, a tie goes to the even neighbour, the error of
  a normal result is at most half a unit in the last place, and no result is NaN.
\<close>

lemma round_even_of_int [simp]: "round_even (of_int n) = n"
  by (simp add: round_even_def)



lemma binade_eq:
  assumes "2 powr of_int k \<le> \<bar>x\<bar>" and "\<bar>x\<bar> < 2 powr of_int (k + 1)" and "- 1022 \<le> k"
  shows "binade x = k"
proof -
  have pos: "0 < \<bar>x\<bar>" using assms(1) powr_gt_zero[of 2 "of_int k"] by linarith
  have "\<lfloor>log 2 \<bar>x\<bar>\<rfloor> = k"
    using floor_log_eq_powr_iff[of "\<bar>x\<bar>" 2 k] pos assms(1,2) by simp
  then show ?thesis using assms(3) by (simp add: binade_def)
qed

lemma round_even_numeral [simp]: "round_even (numeral w) = numeral w"
  using round_even_of_int[of "numeral w"] by simp

lemma powr_le_power: "k \<le> int N \<Longrightarrow> (2::real) powr of_int k \<le> 2 ^ N"
proof -
  assume "k \<le> int N"
  then have "(2::real) powr of_int k \<le> 2 powr of_int (int N)"
    by (intro powr_mono) simp_all
  also have "\<dots> = 2 ^ N" by (simp add: powr_realpow)
  finally show ?thesis .
qed

lemma round64_eval:
  assumes "2 powr of_int k \<le> \<bar>x\<bar>" and "\<bar>x\<bar> < 2 powr of_int (k + 1)" and "- 1022 \<le> k"
      and "k \<le> 1000"
      and "round_even (x / 2 powr of_int (k - 52)) = n"
      and "\<bar>n\<bar> \<le> 2 ^ 53"
  shows "round64 x = Num (of_int n * 2 powr of_int (k - 52))"
proof -
  have nz: "x \<noteq> 0" using assms(1) powr_gt_zero[of 2 "of_int k"] by linarith
  have u: "ulp x = 2 powr of_int (k - 52)" by (simp add: ulp_def binade_eq[OF assms(1-3)])
  have le: "(2::real) powr of_int (k - 52) \<le> 2 ^ 948"
    using assms(4) by (intro powr_le_power) simp
  have n: "\<bar>real_of_int n\<bar> \<le> 2 ^ 53"
    using assms(6) by (metis of_int_abs of_int_le_iff of_int_numeral of_int_power)
  have "\<bar>real_of_int n * 2 powr of_int (k - 52)\<bar> = \<bar>real_of_int n\<bar> * 2 powr of_int (k - 52)"
    by (simp add: abs_mult)
  also have "\<dots> \<le> 2 ^ 53 * 2 ^ 948"
    using n le by (intro mult_mono) simp_all
  also have "\<dots> = (2::real) ^ 1001" unfolding power_add[symmetric] by simp
  also have "\<dots> < (2::real) ^ 1024" by (rule power_strict_increasing) simp_all
  finally have small: "\<bar>real_of_int n * 2 powr of_int (k - 52)\<bar> < 2 ^ 1024" .
  then have "\<not> 2 ^ 1024 \<le> real_of_int n * 2 powr of_int (k - 52)"
    "\<not> real_of_int n * 2 powr of_int (k - 52) \<le> - (2 ^ 1024)" by linarith+
  then show ?thesis using nz assms(5) by (simp add: round64_def u Let_def)
qed

lemma round64_zero [simp]: "round64 0 = Num 0"
  by (simp add: round64_def)

lemma round64_one [simp]: "round64 1 = Num 1"
  using round64_eval[of 0 1 "2 ^ 52"] by (simp add: powr_neg_numeral)





















text \<open>
  C10. \<^verbatim>\<open>withinBounds\<close> answers with a boolean exactly for the two shape tags
  \<^verbatim>\<open>Rectangle\<close> and \<^verbatim>\<open>Ellipse\<close>; for any other tag it takes no branch and its result is
  \<^verbatim>\<open>undefined\<close>.
\<close>

theorem withinBounds_shapes:
  "((selectedShape b = ''Rectangle'' \<or> selectedShape b = ''Ellipse'')
      \<longrightarrow> (\<exists>v. withinBounds b p = Some v))
   \<and> (selectedShape b \<noteq> ''Rectangle'' \<and> selectedShape b \<noteq> ''Ellipse''
      \<longrightarrow> withinBounds b p = None)"
  by (simp add: withinBounds_def)

theorem withinBounds_shapes_witness:
  "selectedShape box_drawn = ''Rectangle''
   \<and> (\<exists>v. withinBounds box_drawn \<lparr>px = 0, py = 0\<rparr> = Some v)
   \<and> selectedShape box_ellipse = ''Ellipse''
   \<and> (\<exists>v. withinBounds box_ellipse \<lparr>px = 0, py = 0\<rparr> = Some v)
   \<and> selectedShape (box_drawn\<lparr>selectedShape := ''Triangle''\<rparr>) \<noteq> ''Rectangle''
   \<and> selectedShape (box_drawn\<lparr>selectedShape := ''Triangle''\<rparr>) \<noteq> ''Ellipse''
   \<and> withinBounds (box_drawn\<lparr>selectedShape := ''Triangle''\<rparr>) \<lparr>px = 150, py = 140\<rparr> = None"
proof -
  have r: "selectedShape box_drawn = ''Rectangle''" by (simp add: box_drawn_def)
  have l: "selectedShape box_ellipse = ''Ellipse''" by (simp add: box_ellipse_def)
  have t: "selectedShape (box_drawn\<lparr>selectedShape := ''Triangle''\<rparr>) \<noteq> ''Rectangle''"
      "selectedShape (box_drawn\<lparr>selectedShape := ''Triangle''\<rparr>) \<noteq> ''Ellipse''"
    by simp_all
  from withinBounds_shapes[of box_drawn "\<lparr>px = 0, py = 0\<rparr>"]
       withinBounds_shapes[of box_ellipse "\<lparr>px = 0, py = 0\<rparr>"]
       withinBounds_shapes[of "box_drawn\<lparr>selectedShape := ''Triangle''\<rparr>" "\<lparr>px = 150, py = 140\<rparr>"]
       r l t
  show ?thesis by simp
qed

section \<open>Evaluating the concrete scene\<close>

text \<open>
  The definitions of the embedding, grouped for unfolding, and the states that the
  gestures of the concrete scene lead to.
\<close>

lemmas box_defs = withinBounds_def withinRectangleBounds_def withinEllipticalBounds_def truthy_def
  set_rgb_def selectPoints_def new_SelectionBox_def updateColors_def removeBox_def
  getSelectionBounds_def makeLine_def setLineTarget_def updateLineStart_def updateLineEnd_def
  removeLine_def removeLines_def makePoint_def makeSelectionPoints_def removePoints_def
  makeBox_def updateBox_def

lemmas control_defs = update_box_def resetButtons_def onMouseDown_select_def onMouseDown_def
  resize_side_def is_resize_side_def onMouseMove_def onMouseUp_select_def flip_x_def flip_y_def
  onMouseUp_resize_def onMouseUp_connect_def onMouseUp_def onKeyUp_def

lemmas scene_defs = findBounds_spec_def scene_env_def scene_start_def mouse_at_def voltmeter_def
  marquee_def click_to_device_def

lemma scene_drawn_eq:
  "scene_drawn =
     scene_start\<lparr>selectionBoxArray := [0], boxInFocus := Some 0,
       layer_points :=
        [(''layerA'', \<lparr>positions = [150, 150, 0], customColor = [1, 0, 1]\<rparr>),
         (''layerB'', \<lparr>positions = [500, 500, 0, 250, 200, 0], customColor = [0, 0, 1, 0, 0, 1]\<rparr>)],
       nSelected := 1, heap := [box_drawn]\<rparr>"
  by (simp add: scene_drawn_def box_drawn_def box_defs control_defs scene_defs Let_def)

lemma scene_connecting_eq:
  "scene_connecting =
     scene_drawn\<lparr>mouseDown := True, make_connection := True,
       mouseDownCoords := \<lparr>px = 150, py = 450\<rparr>,
       heap := [box_drawn\<lparr>curves :=
                 [\<lparr>points0 = \<lparr>px = 200, py = - 140, pz = 0\<rparr>,
                   points1 = \<lparr>px = 200, py = - 140, pz = 0\<rparr>,
                   points2 = \<lparr>px = 200, py = - 140, pz = 0\<rparr>,
                   points3 = \<lparr>px = 200, py = - 140, pz = 0\<rparr>, target = []\<rparr>]\<rparr>]\<rparr>"
  by (simp add: scene_connecting_def scene_drawn_eq box_drawn_def box_defs control_defs scene_defs Let_def)

lemma scene_connected_eq:
  "scene_connected =
     scene_drawn\<lparr>deviceBoxMap := [(''voltmeter_1'', [0])],
       heap := [box_drawn\<lparr>curves := [curve_attached]\<rparr>]\<rparr>"
  by (simp add: scene_connected_def scene_drawn_eq box_drawn_def curve_attached_def
        box_defs control_defs scene_defs Let_def)

lemma scene_connected_twice_eq:
  "scene_connected_twice =
     scene_drawn\<lparr>deviceBoxMap := [(''voltmeter_1'', [0, 0])],
       heap := [box_drawn\<lparr>curves := [curve_attached, curve_attached]\<rparr>]\<rparr>"
  by (simp add: scene_connected_twice_def scene_connected_eq scene_drawn_eq box_drawn_def
        curve_attached_def box_defs control_defs scene_defs Let_def)

lemma scene_dragged_eq:
  "scene_dragged =
     scene_drawn\<lparr>mouseDown := True, resizeSideInFocus := Some ''lowerLeft'',
       mouseDownCoords := \<lparr>px = 100, py = 500\<rparr>,
       heap := [box_drawn\<lparr>ll := \<lparr>px = 400, py = 300\<rparr>\<rparr>]\<rparr>"
  by (simp add: scene_dragged_def scene_drawn_eq box_drawn_def box_defs control_defs scene_defs Let_def)

lemma scene_empty_marquee_eq:
  "scene_empty_marquee =
     scene_start\<lparr>selectionBoxArray := [0], boxInFocus := Some 0,
       heap := [\<lparr>layerName = [], ll = \<lparr>px = 400, py = 500\<rparr>, ur = \<lparr>px = 450, py = 550\<rparr>,
                 selectedNeuronType = None, selectedSynModel = None,
                 selectedShape = ''Rectangle'', box = None, resizePoints = [], curves = [],
                 selectedPointIDs = [], curveObject = None\<rparr>]\<rparr>"
  by (simp add: scene_empty_marquee_def box_defs control_defs scene_defs Let_def)

lemma scene_wide_marquee_eq:
  "scene_wide_marquee =
     scene_start\<lparr>selectionBoxArray := [0], boxInFocus := Some 0,
       layer_points :=
        [(''layerA'', \<lparr>positions = [150, 150, 0], customColor = [1, 0, 1]\<rparr>),
         (''layerB'', \<lparr>positions = [500, 500, 0, 250, 200, 0], customColor = [0, 0, 1, 1, 0, 1]\<rparr>)],
       nSelected := 2,
       heap := [(makeSelectionPoints scene_env
                  \<lparr>layerName = ''layerA'', ll = \<lparr>px = 100, py = 100\<rparr>, ur = \<lparr>px = 300, py = 250\<rparr>,
                   selectedNeuronType = None, selectedSynModel = None,
                   selectedShape = ''Rectangle'', box = Some Object3D, resizePoints = [],
                   curves = [], selectedPointIDs = [0, 3], curveObject = None\<rparr>)
                 \<lparr>selectedNeuronType := Some ''default'', selectedSynModel := Some ''default''\<rparr>]\<rparr>"
  by (simp add: scene_wide_marquee_def box_defs control_defs scene_defs Let_def)

section \<open>Point membership\<close>

text \<open>
  What the two loops of \<^verbatim>\<open>updateColors\<close> return: the rescan appends \<open>scan_ids\<close> and counts
  them, the reset loop counts the old identifiers down.
\<close>

lemma rescan_ids:
  "fst (rescan e b i ps (np, cs, n)) = np @ scan_ids e b i ps"
  by (induction e b i ps arbitrary: np cs n rule: scan_ids.induct) simp_all

lemma rescan_count:
  "snd (snd (rescan e b i ps (np, cs, n))) = n + int (length (scan_ids e b i ps))"
  by (induction e b i ps arbitrary: np cs n rule: scan_ids.induct) simp_all

lemma resetColors_count:
  "snd (resetColors e ids (cs, n)) = n - int (length ids)"
  by (induction ids arbitrary: cs n) simp_all

lemma scan_ids_selectedPointIDs [simp]:
  "scan_ids e (b\<lparr>selectedPointIDs := ids\<rparr>) i ps = scan_ids e b i ps"
  by (induction e b i ps rule: scan_ids.induct)
     (simp_all add: withinBounds_def withinRectangleBounds_def withinEllipticalBounds_def)

lemma map_of_set_layer:
  "map_of lp k = Some l \<Longrightarrow> map_of (set_layer k l' lp) k = Some l'"
  by (induction lp) auto

lemma updateColors_None:
  "map_of (fst g) (layerName b) = None \<Longrightarrow> updateColors e b g = (Some TypeError, b, g)"
  by (simp add: updateColors_def)

lemma updateColors_Some:
  assumes "map_of (fst g) (layerName b) = Some l"
  shows "\<exists>cs. updateColors e b g =
           (None, b\<lparr>selectedPointIDs := scan_ids e b 0 (positions l)\<rparr>,
            set_layer (layerName b) (l\<lparr>customColor := cs\<rparr>) (fst g),
            snd g - int (length (selectedPointIDs b)) + int (length (scan_ids e b 0 (positions l))))"
proof -
  obtain c1 n1 where r1: "resetColors e (selectedPointIDs b) (customColor l, snd g) = (c1, n1)"
    by (cases "resetColors e (selectedPointIDs b) (customColor l, snd g)")
  have n1: "n1 = snd g - int (length (selectedPointIDs b))"
    using resetColors_count[of e "selectedPointIDs b" "customColor l" "snd g"] r1 by simp
  obtain np c2 n2 where r2: "rescan e b 0 (positions l) ([], c1, n1) = (np, c2, n2)"
    by (cases "rescan e b 0 (positions l) ([], c1, n1)")
  have "np = scan_ids e b 0 (positions l)" "n2 = n1 + int (length (scan_ids e b 0 (positions l)))"
    using rescan_ids[of e b 0 "positions l" "[]" c1 n1]
      rescan_count[of e b 0 "positions l" "[]" c1 n1] r2 by simp_all
  then have "updateColors e b g =
           (None, b\<lparr>selectedPointIDs := scan_ids e b 0 (positions l)\<rparr>,
            set_layer (layerName b) (l\<lparr>customColor := c2\<rparr>) (fst g),
            snd g - int (length (selectedPointIDs b)) + int (length (scan_ids e b 0 (positions l))))"
    using assms r1 r2 n1 by (simp add: updateColors_def)
  then show ?thesis by blast
qed

text \<open>
  C9. \<^verbatim>\<open>updateColors\<close> is idempotent: called a second time on the box and the globals that
  the first call left, with the same projection, it ends the same way (it throws again,
  or returns again), leaves the same \<^verbatim>\<open>selectedPointIDs\<close> and leaves \<^verbatim>\<open>nSelected\<close> at the value
  it had after the first call.
\<close>

theorem updateColors_idempotent:
  "(case updateColors e b g of
      (x1, b1, g1) \<Rightarrow>
        (case updateColors e b1 g1 of
           (x2, b2, g2) \<Rightarrow>
             x2 = x1 \<and> selectedPointIDs b2 = selectedPointIDs b1 \<and> snd g2 = snd g1))"
proof (cases "map_of (fst g) (layerName b)")
  case None
  then show ?thesis by (simp add: updateColors_None)
next
  case (Some l)
  from updateColors_Some[OF Some, of e] obtain cs where
    u1: "updateColors e b g =
           (None, b\<lparr>selectedPointIDs := scan_ids e b 0 (positions l)\<rparr>,
            set_layer (layerName b) (l\<lparr>customColor := cs\<rparr>) (fst g),
            snd g - int (length (selectedPointIDs b)) + int (length (scan_ids e b 0 (positions l))))"
    by blast
  let ?b1 = "b\<lparr>selectedPointIDs := scan_ids e b 0 (positions l)\<rparr>"
  let ?g1 = "(set_layer (layerName b) (l\<lparr>customColor := cs\<rparr>) (fst g),
            snd g - int (length (selectedPointIDs b)) + int (length (scan_ids e b 0 (positions l))))"
  have look: "map_of (fst ?g1) (layerName ?b1) = Some (l\<lparr>customColor := cs\<rparr>)"
    using Some by (simp add: map_of_set_layer)
  from updateColors_Some[OF look, of e] obtain cs' where
    u2: "updateColors e ?b1 ?g1 =
           (None, ?b1\<lparr>selectedPointIDs := scan_ids e ?b1 0 (positions (l\<lparr>customColor := cs\<rparr>))\<rparr>,
            set_layer (layerName ?b1) (l\<lparr>customColor := cs, customColor := cs'\<rparr>) (fst ?g1),
            snd ?g1 - int (length (selectedPointIDs ?b1))
              + int (length (scan_ids e ?b1 0 (positions (l\<lparr>customColor := cs\<rparr>)))))"
    by blast
  show ?thesis unfolding u1 by (simp add: u2)
qed

text \<open>
  The pass over a position buffer collects exactly the specification's membership set, so
  after \<^verbatim>\<open>updateColors\<close> returns, \<^verbatim>\<open>selectedPointIDs\<close> is that set for the layer named by
  \<^verbatim>\<open>layerName\<close>.
\<close>

lemma points_within_iff:
  "i \<in> points_within e b ps \<longleftrightarrow>
     i mod 3 = 0 \<and> i + 2 < length ps \<and>
     truthy (withinBounds b (toScreenXY e \<lparr>px = ps ! i, py = ps ! (i + 1), pz = ps ! (i + 2)\<rparr>))"
  by (simp add: points_within_def)

lemma points_within_short: "length ps < 3 \<Longrightarrow> points_within e b ps = {}"
  by (auto simp: points_within_iff)

lemma nth_past_three:
  "(x # y # z # rest) ! (j + 3) = rest ! j"
  "(x # y # z # rest) ! (j + 3 + 1) = rest ! (j + 1)"
  "(x # y # z # rest) ! (j + 3 + 2) = rest ! (j + 2)"
  by (simp_all add: numeral_3_eq_3)

lemma points_within_shift:
  "j + 3 \<in> points_within e b (x # y # z # rest) \<longleftrightarrow> j \<in> points_within e b rest"
proof -
  have m: "(j + 3) mod 3 = j mod 3" by simp
  have l: "j + 3 + 2 < length (x # y # z # rest) \<longleftrightarrow> j + 2 < length rest" by simp
  show ?thesis
    unfolding points_within_iff m l nth_past_three ..
qed

lemma points_within_zero:
  "0 \<in> points_within e b (x # y # z # rest) \<longleftrightarrow>
     truthy (withinBounds b (toScreenXY e \<lparr>px = x, py = y, pz = z\<rparr>))"
  by (simp add: points_within_iff)

lemma points_within_step:
  "points_within e b (x # y # z # rest) =
     (if truthy (withinBounds b (toScreenXY e \<lparr>px = x, py = y, pz = z\<rparr>)) then {0} else {})
     \<union> (\<lambda>j. j + 3) ` points_within e b rest"
proof (rule set_eqI)
  fix i :: nat
  have "i = 0 \<or> i = 1 \<or> i = 2 \<or> (\<exists>j. i = j + 3)" by presburger
  then consider "i = 0" | "i = 1 \<or> i = 2" | j where "i = j + 3" by blast
  then show "i \<in> points_within e b (x # y # z # rest) \<longleftrightarrow>
        i \<in> (if truthy (withinBounds b (toScreenXY e \<lparr>px = x, py = y, pz = z\<rparr>)) then {0} else {})
              \<union> (\<lambda>j. j + 3) ` points_within e b rest"
  proof cases
    case 1
    then show ?thesis using points_within_zero[of e b x y z rest] by auto
  next
    case 2
    then have "i mod 3 \<noteq> 0" by auto
    then have "i \<notin> points_within e b (x # y # z # rest)" by (simp add: points_within_iff)
    moreover have "i \<notin> (\<lambda>j. j + 3) ` points_within e b rest" using 2 by auto
    ultimately show ?thesis using 2 by auto
  next
    case 3
    have "i \<in> (\<lambda>j. j + 3) ` points_within e b rest \<longleftrightarrow> j \<in> points_within e b rest"
      unfolding 3 by auto
    then show ?thesis using points_within_shift[of j e b x y z rest] 3 by auto
  qed
qed

lemma scan_ids_set:
  "set (scan_ids e b i ps) = (\<lambda>j. j + i) ` points_within e b ps"
proof (induction e b i ps rule: scan_ids.induct)
  case (1 e b i x y z rest)
  have sh: "(\<lambda>j. j + i) ` (\<lambda>j. j + 3) ` points_within e b rest
              = (\<lambda>j. j + (i + 3)) ` points_within e b rest"
    unfolding image_image by (rule image_cong) simp_all
  show ?case
    unfolding points_within_step image_Un sh using 1 by simp
qed (simp_all add: points_within_short)

lemma updateColors_exact:
  assumes "map_of (fst g) (layerName b) = Some l"
      and "updateColors e b g = (x, b', g')"
  shows "x = None \<and> layerName b' = layerName b
       \<and> set (selectedPointIDs b') = points_within e b' (positions l)"
proof -
  from updateColors_Some[OF assms(1), of e] assms(2)
  have b': "x = None" "b' = b\<lparr>selectedPointIDs := scan_ids e b 0 (positions l)\<rparr>" by auto
  have same: "points_within e b' (positions l) = points_within e b (positions l)"
    unfolding b' by (simp add: points_within_def withinBounds_def withinRectangleBounds_def
        withinEllipticalBounds_def)
  show ?thesis using b' same scan_ids_set[of e b 0 "positions l"] by simp
qed

text \<open>
  C2. The claim asks that after construction, too, \<^verbatim>\<open>selectedPointIDs\<close> is the membership set
  of the layer named by \<^verbatim>\<open>layerName\<close>. \<^verbatim>\<open>selectPoints\<close> pushes the indices of every layer it
  walks through onto the one list: after the marquee from (100, 100) to (300, 250), which
  holds the point of layerA and the second point of layerB, the box is named layerA and
  its list is \<open>[0, 3]\<close>, while layerA has the single point 0.
\<close>

theorem selectPoints_collects_other_layers:
  "layerName (heap scene_wide_marquee ! 0) = ''layerA''
   \<and> map_of (layer_points scene_wide_marquee) ''layerA''
       = Some \<lparr>positions = [150, 150, 0], customColor = [1, 0, 1]\<rparr>
   \<and> selectedPointIDs (heap scene_wide_marquee ! 0) = [0, 3]
   \<and> points_within scene_env (heap scene_wide_marquee ! 0) [150, 150, 0] = {0}
   \<and> set (selectedPointIDs (heap scene_wide_marquee ! 0))
       \<noteq> points_within scene_env (heap scene_wide_marquee ! 0) [150, 150, 0]"
proof -
  have hit: "truthy (withinBounds (heap scene_wide_marquee ! 0)
                 (toScreenXY scene_env \<lparr>px = 150, py = 150, pz = 0\<rparr>))"
    by (simp add: scene_wide_marquee_eq scene_start_def scene_env_def makeSelectionPoints_def
          getSelectionBounds_def Let_def withinBounds_def withinRectangleBounds_def truthy_def)
  have only: "i mod 3 = 0 \<and> i + 2 < 3 \<longleftrightarrow> i = 0" for i :: nat
    by (cases "i = 0") auto
  have pw: "points_within scene_env (heap scene_wide_marquee ! 0) [150, 150, 0] = {0}"
    unfolding points_within_def using hit
    by (auto simp: only)
  have ids: "selectedPointIDs (heap scene_wide_marquee ! 0) = [0, 3]"
    by (simp add: scene_wide_marquee_eq scene_start_def makeSelectionPoints_def
          getSelectionBounds_def Let_def)
  have nm: "layerName (heap scene_wide_marquee ! 0) = ''layerA''"
    by (simp add: scene_wide_marquee_eq scene_start_def makeSelectionPoints_def
          getSelectionBounds_def Let_def)
  have lp: "map_of (layer_points scene_wide_marquee) ''layerA''
       = Some \<lparr>positions = [150, 150, 0], customColor = [1, 0, 1]\<rparr>"
    by (simp add: scene_wide_marquee_eq scene_start_def)
  show ?thesis unfolding pw ids using nm lp by simp
qed

section \<open>Committing a marquee\<close>

text \<open>
  Whatever the new box's \<^verbatim>\<open>layerName\<close> is, the first branch of \<^verbatim>\<open>onMouseUp\<close> gives it the
  focus and pushes it on \<^verbatim>\<open>selectionBoxArray\<close>.
\<close>

lemma onMouseUp_select_pushes:
  assumes "make_selection_box s"
  shows "boxInFocus (snd (onMouseUp e s ev)) = Some (length (heap s))
       \<and> selectionBoxArray (snd (onMouseUp e s ev)) = selectionBoxArray s @ [length (heap s)]"
  using assms
  by (simp add: onMouseUp_def onMouseUp_select_def Let_def resetButtons_def update_box_def
        split: prod.splits)

text \<open>
  C1. The claim asks that a region whose \<^verbatim>\<open>layerName\<close> is empty is not in
  \<^verbatim>\<open>selectionBoxArray\<close> once the handler has returned. The source pushes the box before it
  tests \<^verbatim>\<open>layerSelected\<close>: after a marquee over an empty part of the canvas the handler
  returns, the new box has an empty \<^verbatim>\<open>layerName\<close>, and it is in \<^verbatim>\<open>selectionBoxArray\<close> and has
  the focus.
\<close>

theorem onMouseUp_retains_empty_region:
  "selectionBoxArray scene_start = []
   \<and> make_selection_box
       (snd (onMouseMove scene_env (onMouseDown scene_env scene_start (mouse_at 400 100))
               (mouse_at 450 50)))
   \<and> fst (marquee scene_env scene_start 400 100 450 50) = None
   \<and> scene_empty_marquee = snd (marquee scene_env scene_start 400 100 450 50)
   \<and> layerName (heap scene_empty_marquee ! 0) = []
   \<and> selectionBoxArray scene_empty_marquee = [0]
   \<and> boxInFocus scene_empty_marquee = Some 0"
proof -
  have a: "make_selection_box
       (snd (onMouseMove scene_env (onMouseDown scene_env scene_start (mouse_at 400 100))
               (mouse_at 450 50)))"
    by (simp add: control_defs scene_defs)
  have b: "fst (marquee scene_env scene_start 400 100 450 50) = None"
    by (simp add: control_defs scene_defs)
  have c: "scene_empty_marquee = snd (marquee scene_env scene_start 400 100 450 50)"
    by (simp add: scene_empty_marquee_def)
  have d: "selectionBoxArray scene_start = []" by (simp add: scene_start_def)
  have f: "layerName (heap scene_empty_marquee ! 0) = []"
      "selectionBoxArray scene_empty_marquee = [0]" "boxInFocus scene_empty_marquee = Some 0"
    by (simp_all add: scene_empty_marquee_eq)
  show ?thesis using a b c d f by blast
qed

section \<open>Focusing a region\<close>

text \<open>
  No box that the constructor returns has a \<^verbatim>\<open>curveObject\<close>, so a press inside a box
  always sets \<^verbatim>\<open>make_connection\<close> and adds a curve, however many curves the box has.
\<close>

lemma selectPoints_layer_curveObject:
  "curveObject (fst (selectPoints_layer e nm i ps (b, cs, n))) = curveObject b"
  by (induction e nm i ps "(b, cs, n)" arbitrary: b cs n rule: selectPoints_layer.induct) simp_all

lemma selectPoints_layers_curveObject:
  "curveObject (fst (selectPoints_layers e lp (b, n))) = curveObject b"
proof (induction lp arbitrary: b n)
  case Nil
  then show ?case by simp
next
  case (Cons a lp)
  obtain nm l where a: "a = (nm, l)" by (cases a)
  obtain b1 cs n1 where r: "selectPoints_layer e nm 0 (positions l) (b, customColor l, n) = (b1, cs, n1)"
    by (cases "selectPoints_layer e nm 0 (positions l) (b, customColor l, n)")
  have "curveObject b1 = curveObject b"
    using selectPoints_layer_curveObject[of e nm 0 "positions l" b "customColor l" n] r by simp
  then show ?case using Cons[of b1 n1] a r by (auto split: prod.splits)
qed

lemma new_SelectionBox_curveObject:
  "curveObject (fst (new_SelectionBox e l u shape g)) = None"
  by (simp add: new_SelectionBox_def selectPoints_def selectPoints_layers_curveObject)

lemma focus_scan_hit:
  assumes "truthy (withinBounds (heap s ! r) p)" and "curveObject (heap s ! r) = None"
      and "r < length (heap s)"
  shows "boxInFocus (focus_scan e p (r # rs) s) = Some r
       \<and> make_connection (focus_scan e p (r # rs) s)
       \<and> length (curves (heap (focus_scan e p (r # rs) s) ! r)) = Suc (length (curves (heap s ! r)))"
  using assms
  by (simp add: Let_def update_box_def makeLine_def makeSelectionPoints_def split: prod.splits)

text \<open>
  C3. The claim asks that a press which focuses a region that already has a connector
  creates no new curve. The guard of the source reads \<^verbatim>\<open>boxInFocus.curveObject\<close>, which no
  SelectionBox has: in the scene whose box is attached to the voltmeter, a press inside
  the box, without shift and off the handles, enters the connecting state and leaves the
  box with two curves.
\<close>

theorem onMouseDown_connects_again:
  "boxInFocus scene_connected = Some 0
   \<and> curves (heap scene_connected ! 0) = [curve_attached]
   \<and> target curve_attached = ''voltmeter_1''
   \<and> \<not> shiftKey (mouse_at 150 450) \<and> pointIntersects (mouse_at 150 450) = []
   \<and> boxInFocus (onMouseDown scene_env scene_connected (mouse_at 150 450)) = Some 0
   \<and> make_connection (onMouseDown scene_env scene_connected (mouse_at 150 450))
   \<and> length (curves (heap (onMouseDown scene_env scene_connected (mouse_at 150 450)) ! 0)) = 2"
  by (simp add: scene_connected_eq scene_drawn_eq box_drawn_def curve_attached_def
        box_defs control_defs scene_defs Let_def)

section \<open>Ending a resize\<close>

lemma updateColors_corners:
  "updateColors e b g = (x, b', g') \<Longrightarrow> ll b' = ll b \<and> ur b' = ur b"
  by (auto simp: updateColors_def split: option.splits prod.splits)

lemma flip_corners:
  "px (ll (flip_y (flip_x b))) = min (px (ll b)) (px (ur b))"
  "px (ur (flip_y (flip_x b))) = max (px (ll b)) (px (ur b))"
  "py (ll (flip_y (flip_x b))) = min (py (ll b)) (py (ur b))"
  "py (ur (flip_y (flip_x b))) = max (py (ll b)) (py (ur b))"
  by (simp_all add: flip_x_def flip_y_def)

lemma handles_corners [simp]:
  "ll (makeSelectionPoints e b) = ll b" "ur (makeSelectionPoints e b) = ur b"
  "ll (removePoints b) = ll b" "ur (removePoints b) = ur b"
  "ll (updateLineStart q b) = ll b" "ur (updateLineStart q b) = ur b"
  by (simp_all add: makeSelectionPoints_def removePoints_def updateLineStart_def split: prod.splits)

lemma heap_resetButtons [simp]: "heap (resetButtons s) = heap s"
  by (simp add: resetButtons_def)

text \<open>
  C4. After the pointer-up that ends a resize (no marquee in progress, a handle in focus,
  a focused box), the corners of the focused box are in order, \<open>ll.x \<le> ur.x\<close> and
  \<open>ll.y \<le> ur.y\<close>, whether or not the drag had inverted them, and also when
  \<^verbatim>\<open>updateColors\<close> throws after the exchange. The new corners are the smaller and the larger
  of the old coordinates, so the box keeps its extent.
\<close>

theorem onMouseUp_resize_ordered:
  assumes "\<not> make_selection_box s" and "resizeSideInFocus s = Some side"
      and "boxInFocus s = Some r" and "r < length (heap s)"
      and "s' = snd (onMouseUp e s ev)"
  shows "px (ll (heap s' ! r)) \<le> px (ur (heap s' ! r))
       \<and> py (ll (heap s' ! r)) \<le> py (ur (heap s' ! r))
       \<and> px (ll (heap s' ! r)) = min (px (ll (heap s ! r))) (px (ur (heap s ! r)))
       \<and> px (ur (heap s' ! r)) = max (px (ll (heap s ! r))) (px (ur (heap s ! r)))
       \<and> py (ll (heap s' ! r)) = min (py (ll (heap s ! r))) (py (ur (heap s ! r)))
       \<and> py (ur (heap s' ! r)) = max (py (ll (heap s ! r))) (py (ur (heap s ! r)))"
proof -
  let ?s1 = "s\<lparr>resizeSideInFocus := None\<rparr>"
  let ?b2 = "makeSelectionPoints e (removePoints (flip_y (flip_x (heap s ! r))))"
  let ?s2 = "update_box r (\<lambda>b. makeSelectionPoints e (removePoints (flip_y (flip_x b)))) ?s1"
  have b2: "heap ?s2 ! r = ?b2" using assms(4) by (simp add: update_box_def)
  have len2: "r < length (heap ?s2)" using assms(4) by (simp add: update_box_def)
  have c2: "ll ?b2 = ll (flip_y (flip_x (heap s ! r)))" "ur ?b2 = ur (flip_y (flip_x (heap s ! r)))"
    by simp_all
  obtain x b lp n where u: "updateColors e ?b2 (layer_points ?s2, nSelected ?s2) = (x, b, lp, n)"
    by (cases "updateColors e ?b2 (layer_points ?s2, nSelected ?s2)") auto
  have cb: "ll b = ll ?b2" "ur b = ur ?b2" using updateColors_corners[OF u] by simp_all
  have up: "onMouseUp e s ev = onMouseUp_resize e s" using assms(1,2) by (simp add: onMouseUp_def)
  have corners: "ll (heap s' ! r) = ll (flip_y (flip_x (heap s ! r)))
               \<and> ur (heap s' ! r) = ur (flip_y (flip_x (heap s ! r)))"
  proof (cases x)
    case None
    have "heap (snd (onMouseUp_resize e s)) ! r =
            updateLineStart (toObjectCoordinates e
               \<lparr>px = px (ur b), py = rendererHeight e - (py (ll b) + py (ur b)) / 2\<rparr>) b"
      using assms(3) None u b2 len2 by (simp add: onMouseUp_resize_def Let_def update_box_def)
    then show ?thesis using up cb c2 assms(5) by simp
  next
    case (Some a)
    have "snd (onMouseUp_resize e s) = ?s2"
      using assms(3) Some u b2 by (simp add: onMouseUp_resize_def Let_def)
    then show ?thesis using up b2 c2 assms(5) by simp
  qed
  have "min a c \<le> max a c" for a c :: real by simp
  then show ?thesis using corners by (simp add: flip_corners)
qed

theorem onMouseUp_resize_ordered_witness:
  "\<not> make_selection_box scene_dragged
   \<and> resizeSideInFocus scene_dragged = Some ''lowerLeft''
   \<and> boxInFocus scene_dragged = Some 0
   \<and> 0 < length (heap scene_dragged)
   \<and> ll (heap scene_dragged ! 0) = \<lparr>px = 400, py = 300\<rparr>
   \<and> ur (heap scene_dragged ! 0) = \<lparr>px = 200, py = 180\<rparr>
   \<and> px (ll (heap (snd (onMouseUp scene_env scene_dragged (mouse_at 400 300))) ! 0)) = 200
   \<and> py (ll (heap (snd (onMouseUp scene_env scene_dragged (mouse_at 400 300))) ! 0)) = 180
   \<and> px (ur (heap (snd (onMouseUp scene_env scene_dragged (mouse_at 400 300))) ! 0)) = 400
   \<and> py (ur (heap (snd (onMouseUp scene_env scene_dragged (mouse_at 400 300))) ! 0)) = 300
   \<and> px (ll (heap (snd (onMouseUp scene_env scene_dragged (mouse_at 400 300))) ! 0))
       \<le> px (ur (heap (snd (onMouseUp scene_env scene_dragged (mouse_at 400 300))) ! 0))
   \<and> py (ll (heap (snd (onMouseUp scene_env scene_dragged (mouse_at 400 300))) ! 0))
       \<le> py (ur (heap (snd (onMouseUp scene_env scene_dragged (mouse_at 400 300))) ! 0))"
proof -
  have h: "\<not> make_selection_box scene_dragged"
      "resizeSideInFocus scene_dragged = Some ''lowerLeft''"
      "boxInFocus scene_dragged = Some 0" "0 < length (heap scene_dragged)"
    by (simp_all add: scene_dragged_eq scene_drawn_eq scene_start_def)
  have inv: "ll (heap scene_dragged ! 0) = \<lparr>px = 400, py = 300\<rparr>"
      "ur (heap scene_dragged ! 0) = \<lparr>px = 200, py = 180\<rparr>"
    by (simp_all add: scene_dragged_eq scene_drawn_eq scene_start_def box_drawn_def)
  from onMouseUp_resize_ordered[OF h refl, of scene_env "mouse_at 400 300"] h inv
  show ?thesis by simp
qed

section \<open>Ending a connector gesture on a device\<close>

lemma map_of_set_device_boxes:
  "map_of al k = Some v \<Longrightarrow> map_of (set_device_boxes k v' al) k = Some v'"
  by (induction al) auto

text \<open>
  C8. When the pointer-up of a connector gesture hits a device (the focused box has a
  curve in progress and the device has an entry in \<^verbatim>\<open>deviceBoxMap\<close>), the handler returns,
  the last curve's target is the device's name, the box is appended to the device's list,
  and the last control point is at \<open>x = ax - r\<close>, \<open>y = ay\<close>. The witness is the device at
  (5, 0) with radius 0.2: the last control point's x is \<open>5 - 0.2\<close>.
\<close>

theorem onMouseUp_connect_hit:
  assumes "\<not> make_selection_box s" and "resizeSideInFocus s = None" and "make_connection s"
      and "boxInFocus s = Some r" and "r < length (heap s)" and "curves (heap s ! r) \<noteq> []"
      and "intersects ev = d # ds"
      and "map_of (deviceBoxMap s) (device_name d) = Some boxes"
  shows "fst (onMouseUp e s ev) = None
       \<and> target (last (curves (heap (snd (onMouseUp e s ev)) ! r))) = device_name d
       \<and> map_of (deviceBoxMap (snd (onMouseUp e s ev))) (device_name d) = Some (boxes @ [r])
       \<and> px (points3 (last (curves (heap (snd (onMouseUp e s ev)) ! r))))
           = px (device_position d) - device_radius d
       \<and> py (points3 (last (curves (heap (snd (onMouseUp e s ev)) ! r))))
           = py (device_position d)"
proof -
  let ?b = "heap s ! r"
  let ?b1 = "?b\<lparr>curves := butlast (curves ?b) @ [(last (curves ?b))\<lparr>target := device_name d\<rparr>]\<rparr>"
  let ?newPos = "\<lparr>px = px (device_position d) - device_radius d, py = py (device_position d)\<rparr>"
  let ?b2 = "updateLineEnd ?newPos (device_name d) ?b1"
  have t: "setLineTarget (device_name d) ?b = Inr ?b1"
    using assms(6) by (simp add: setLineTarget_def)
  have up: "onMouseUp e s ev = onMouseUp_connect e s ev"
    using assms(1-3) by (simp add: onMouseUp_def)
  have res: "onMouseUp_connect e s ev =
      (None, resetButtons (s\<lparr>heap := (heap s)[r := ?b2],
                 deviceBoxMap := set_device_boxes (device_name d) (boxes @ [r]) (deviceBoxMap s)\<rparr>))"
    using assms(4,7,8) t by (simp add: onMouseUp_connect_def Let_def)
  have lastc: "last (curves ?b2) =
      (last (curves ?b))\<lparr>target := device_name d,
         points1 := (points1 (last (curves ?b)))\<lparr>px := px (points0 (last (curves ?b))) + 0.05\<rparr>,
         points2 := (points2 (last (curves ?b)))\<lparr>px := px ?newPos - 0.05, py := py ?newPos\<rparr>,
         points3 := (points3 (last (curves ?b)))\<lparr>px := px ?newPos, py := py ?newPos\<rparr>\<rparr>"
    by (simp add: updateLineEnd_def last_map)
  have hp: "heap (snd (onMouseUp e s ev)) ! r = ?b2"
    using up res assms(5) by simp
  have dm: "deviceBoxMap (snd (onMouseUp e s ev))
              = set_device_boxes (device_name d) (boxes @ [r]) (deviceBoxMap s)"
    using up res by (simp add: resetButtons_def)
  show ?thesis
    unfolding hp dm lastc using up res assms(8) by (simp add: map_of_set_device_boxes)
qed

theorem onMouseUp_connect_hit_witness:
  "\<not> make_selection_box scene_connecting
   \<and> resizeSideInFocus scene_connecting = None
   \<and> make_connection scene_connecting
   \<and> boxInFocus scene_connecting = Some 0
   \<and> 0 < length (heap scene_connecting)
   \<and> curves (heap scene_connecting ! 0) \<noteq> []
   \<and> intersects ((mouse_at 500 300)\<lparr>intersects := [voltmeter]\<rparr>) = [voltmeter]
   \<and> map_of (deviceBoxMap scene_connecting) (device_name voltmeter) = Some []
   \<and> px (device_position voltmeter) = 5 \<and> py (device_position voltmeter) = 0
   \<and> device_radius voltmeter = 0.2
   \<and> fst (onMouseUp scene_env scene_connecting ((mouse_at 500 300)\<lparr>intersects := [voltmeter]\<rparr>)) = None
   \<and> target (last (curves (heap (snd (onMouseUp scene_env scene_connecting
          ((mouse_at 500 300)\<lparr>intersects := [voltmeter]\<rparr>))) ! 0))) = ''voltmeter_1''
   \<and> map_of (deviceBoxMap (snd (onMouseUp scene_env scene_connecting
          ((mouse_at 500 300)\<lparr>intersects := [voltmeter]\<rparr>)))) ''voltmeter_1'' = Some [0]
   \<and> px (points3 (last (curves (heap (snd (onMouseUp scene_env scene_connecting
          ((mouse_at 500 300)\<lparr>intersects := [voltmeter]\<rparr>))) ! 0)))) = 5 - 0.2
   \<and> py (points3 (last (curves (heap (snd (onMouseUp scene_env scene_connecting
          ((mouse_at 500 300)\<lparr>intersects := [voltmeter]\<rparr>))) ! 0)))) = 0"
proof -
  let ?ev = "(mouse_at 500 300)\<lparr>intersects := [voltmeter]\<rparr>"
  have h: "\<not> make_selection_box scene_connecting" "resizeSideInFocus scene_connecting = None"
      "make_connection scene_connecting" "boxInFocus scene_connecting = Some 0"
      "0 < length (heap scene_connecting)" "curves (heap scene_connecting ! 0) \<noteq> []"
      "intersects ?ev = voltmeter # []"
      "map_of (deviceBoxMap scene_connecting) (device_name voltmeter) = Some []"
    by (simp_all add: scene_connecting_eq scene_drawn_eq scene_start_def voltmeter_def)
  have v: "px (device_position voltmeter) = 5" "py (device_position voltmeter) = 0"
      "device_radius voltmeter = 0.2" "device_name voltmeter = ''voltmeter_1''"
    by (simp_all add: voltmeter_def)
  from onMouseUp_connect_hit[OF h, of scene_env] h v
  show ?thesis by simp
qed

section \<open>Deleting the focused region\<close>

text \<open>
  With no focused box, or with another key, \<^verbatim>\<open>onKeyUp\<close> changes nothing. With a focused box
  whose layer exists it clears the focus and removes the first occurrence of the box from
  \<^verbatim>\<open>selectionBoxArray\<close> and from every list of \<^verbatim>\<open>deviceBoxMap\<close>.
\<close>

lemma onKeyUp_no_focus:
  "boxInFocus s = None \<Longrightarrow> onKeyUp e s keyCode = (None, s)"
  by (simp add: onKeyUp_def)

lemma onKeyUp_other_key:
  "keyCode \<noteq> 46 \<Longrightarrow> onKeyUp e s keyCode = (None, s)"
  by (simp add: onKeyUp_def split: option.splits)

lemma removeBox_Some:
  "map_of (fst g) (layerName b) = Some l \<Longrightarrow> fst (removeBox e b g) = None"
  by (simp add: removeBox_def split: prod.splits)

lemma onKeyUp_removes_first:
  assumes "boxInFocus s = Some r"
      and "map_of (layer_points s) (layerName (heap s ! r)) = Some l"
  shows "fst (onKeyUp e s 46) = None
       \<and> boxInFocus (snd (onKeyUp e s 46)) = None
       \<and> selectionBoxArray (snd (onKeyUp e s 46)) = remove1 r (selectionBoxArray s)
       \<and> deviceBoxMap (snd (onKeyUp e s 46))
           = map (\<lambda>(dev, boxes). (dev, remove1 r boxes)) (deviceBoxMap s)"
proof -
  let ?s1 = "update_box r removePoints s"
  have nm: "layerName (heap ?s1 ! r) = layerName (heap s ! r)"
    by (cases "r < length (heap s)") (simp_all add: update_box_def removePoints_def list_update_beyond)
  have "map_of (fst (layer_points ?s1, nSelected ?s1)) (layerName (heap ?s1 ! r)) = Some l"
    using assms(2) nm by (simp add: update_box_def)
  from removeBox_Some[OF this, of e]
  obtain lp n where rb: "removeBox e (heap ?s1 ! r) (layer_points ?s1, nSelected ?s1) = (None, lp, n)"
    by (cases "removeBox e (heap ?s1 ! r) (layer_points ?s1, nSelected ?s1)") auto
  show ?thesis using assms(1) rb
    by (simp add: onKeyUp_def Let_def) (simp add: update_box_def)
qed

text \<open>
  C5. The claim asks that the delete key removes the focused region from the collection
  and from every list of \<^verbatim>\<open>deviceBoxMap\<close> that referred to it, and clears the focus. A box
  connected twice to the same device stands twice in that device's list, and
  \<^verbatim>\<open>indexOf\<close> with \<^verbatim>\<open>splice\<close> removes one occurrence: after the delete the list still refers
  to the box. And on the box that an empty marquee left behind, \<^verbatim>\<open>removeBox\<close> throws a
  TypeError before anything is removed: the box stays in the collection and in focus.
\<close>

theorem onKeyUp_leaves_reference:
  "boxInFocus scene_connected_twice = Some 0
   \<and> map_of (deviceBoxMap scene_connected_twice) ''voltmeter_1'' = Some [0, 0]
   \<and> fst (onKeyUp scene_env scene_connected_twice 46) = None
   \<and> selectionBoxArray (snd (onKeyUp scene_env scene_connected_twice 46)) = []
   \<and> boxInFocus (snd (onKeyUp scene_env scene_connected_twice 46)) = None
   \<and> map_of (deviceBoxMap (snd (onKeyUp scene_env scene_connected_twice 46))) ''voltmeter_1''
       = Some [0]
   \<and> boxInFocus scene_empty_marquee = Some 0
   \<and> onKeyUp scene_env scene_empty_marquee 46 = (Some TypeError, scene_empty_marquee)"
proof -
  have twice: "boxInFocus scene_connected_twice = Some 0"
      "map_of (layer_points scene_connected_twice) (layerName (heap scene_connected_twice ! 0))
         = Some \<lparr>positions = [150, 150, 0], customColor = [1, 0, 1]\<rparr>"
      "deviceBoxMap scene_connected_twice = [(''voltmeter_1'', [0, 0])]"
      "selectionBoxArray scene_connected_twice = [0]"
    by (simp_all add: scene_connected_twice_eq scene_drawn_eq scene_start_def box_drawn_def)
  have empty: "onKeyUp scene_env scene_empty_marquee 46 = (Some TypeError, scene_empty_marquee)"
    by (simp add: scene_empty_marquee_eq scene_start_def onKeyUp_def update_box_def
          removePoints_def removeBox_def Let_def)
  have foc: "boxInFocus scene_empty_marquee = Some 0"
    by (simp add: scene_empty_marquee_eq scene_start_def)
  show ?thesis
    using onKeyUp_removes_first[OF twice(1,2), of scene_env] twice(1,3,4) empty foc by simp
qed

end
